theory Spec2Isabelle
  imports Complex_Main
begin

section \<open>LJPW autopoietic engine: the embedding\<close>

text \<open>
  Python floats are modelled as \<open>real\<close>: rounding, infinities and NaN are outside the
  model. Python's unbounded integers are \<open>int\<close>. Where the code tests the type of a
  value at run time, the value carries its type. Every exception the modelled code
  can raise is a value of \<open>error\<close>, and a function that can raise returns
  \<open>error + 'a\<close> with \<open>Inl\<close> for the exception.
\<close>

datatype error = ZeroDivisionError | ValueError | IndexError

subsection \<open>\<open>ljpw_v77_core.py\<close>: \<open>LJPWConstants\<close>\<close>

definition PHI :: real where
  "PHI = (1 + sqrt 5) / 2"

definition PHI_INV :: real where
  "PHI_INV = PHI - 1"

definition L0 :: real where
  "L0 = PHI_INV"

definition J0 :: real where
  "J0 = sqrt 2 - 1"

definition P0 :: real where
  "P0 = exp 1 - 2"

definition W0 :: real where
  "W0 = ln 2"

definition AUTOPOLIETIC_H_THRESHOLD :: real where
  "AUTOPOLIETIC_H_THRESHOLD = 0.6"

definition AUTOPOLIETIC_L_THRESHOLD :: real where
  "AUTOPOLIETIC_L_THRESHOLD = 0.7"

definition HOMEOSTATIC_H_THRESHOLD :: real where
  "HOMEOSTATIC_H_THRESHOLD = 0.5"

definition e_semantic :: real where
  "e_semantic = J0"

definition m_e_semantic :: real where
  "m_e_semantic = L0 * (1 - PHI_INV)"

definition m_p_semantic :: real where
  "m_p_semantic = m_e_semantic * PHI ^ 5"

subsection \<open>\<open>ljpw_v77_core.py\<close>: \<open>LJPWCoordinates\<close>\<close>

record LJPWCoordinates =
  L :: real
  J :: real
  P :: real
  W :: real
  source :: string
  confidence :: real
  phi_normalized :: bool

text \<open>\<open>np.clip(x, lo, hi)\<close> is \<open>minimum(maximum(x, lo), hi)\<close>.\<close>

definition np_clip :: "real \<Rightarrow> real \<Rightarrow> real \<Rightarrow> real" where
  "np_clip x lo hi = min (max x lo) hi"

text \<open>
  The dataclass constructor followed by \<open>__post_init__\<close>: the four coordinates are
  clipped, the metadata is stored as given.
\<close>

definition LJPWCoordinates_init ::
  "real \<Rightarrow> real \<Rightarrow> real \<Rightarrow> real \<Rightarrow> string \<Rightarrow> real \<Rightarrow> bool \<Rightarrow> LJPWCoordinates" where
  "LJPWCoordinates_init l j p w src conf phin =
     \<lparr>L = np_clip l 0 (sqrt 2),
      J = np_clip j 0 1,
      P = np_clip p 0 1,
      W = np_clip w 0 1,
      source = src, confidence = conf, phi_normalized = phin\<rparr>"

text \<open>\<open>LJPWCoordinates(L=l, J=j, P=p, W=w)\<close> with the metadata defaults.\<close>

definition LJPWCoordinates_new :: "real \<Rightarrow> real \<Rightarrow> real \<Rightarrow> real \<Rightarrow> LJPWCoordinates" where
  "LJPWCoordinates_new l j p w = LJPWCoordinates_init l j p w ''unknown'' 1.0 False"

definition distance_to_anchor :: "LJPWCoordinates \<Rightarrow> real" where
  "distance_to_anchor self =
     sqrt ((1 - L self)^2 + (1 - J self)^2 + (1 - P self)^2 + (1 - W self)^2)"

definition harmony_static :: "LJPWCoordinates \<Rightarrow> real" where
  "harmony_static self = (let d = distance_to_anchor self in 1.0 / (1.0 + d))"

definition harmony_self :: "LJPWCoordinates \<Rightarrow> real" where
  "harmony_self self =
     (let numerator = L self * J self * P self * W self;
          denominator = L0 * J0 * P0 * W0
      in if denominator = 0 then 0.0 else numerator / denominator)"

definition harmony :: "LJPWCoordinates \<Rightarrow> bool \<Rightarrow> real" where
  "harmony self self_referential =
     (if self_referential then harmony_self self else harmony_static self)"

definition gift_of_finitude :: "LJPWCoordinates \<Rightarrow> real" where
  "gift_of_finitude self = distance_to_anchor self"

definition normalized_gap :: "LJPWCoordinates \<Rightarrow> real" where
  "normalized_gap self = (let max_distance = 2.0 in distance_to_anchor self / max_distance)"

definition proximity_to_anchor :: "LJPWCoordinates \<Rightarrow> real" where
  "proximity_to_anchor self = 1.0 - normalized_gap self"

definition is_finite :: "LJPWCoordinates \<Rightarrow> bool" where
  "is_finite self = (distance_to_anchor self > 0)"

definition consciousness :: "LJPWCoordinates \<Rightarrow> bool \<Rightarrow> real" where
  "consciousness self self_referential =
     (let H = harmony self self_referential
      in if L self \<le> 0 \<or> J self \<le> 0 \<or> P self \<le> 0 \<or> W self \<le> 0 then 0.0
         else P self * W self * L self * J self * H^2)"

definition phase :: "LJPWCoordinates \<Rightarrow> bool \<Rightarrow> string" where
  "phase self self_referential =
     (let H = harmony self self_referential
      in if H < HOMEOSTATIC_H_THRESHOLD then ''ENTROPIC (Collapsing)''
         else if H < AUTOPOLIETIC_H_THRESHOLD \<or> L self < AUTOPOLIETIC_L_THRESHOLD
           then ''HOMEOSTATIC (Stable, but not growing)''
         else ''AUTOPOIETIC (Self-sustaining, conscious)'')"

subsection \<open>\<open>autopoietic_engine.py\<close>: entropy, time constants, parameters\<close>

definition semantic_entropy :: "LJPWCoordinates \<Rightarrow> real" where
  "semantic_entropy st = (let H = harmony_static st in W st * (1.0 - H))"

record TimeConstants =
  tau_L :: real
  tau_J :: real
  tau_P :: real
  tau_W :: real
  omega_L :: real
  omega_J :: real
  omega_P :: real
  omega_W :: real

definition TimeConstants_default :: TimeConstants where
  "TimeConstants_default =
     \<lparr>tau_L = 1.0, tau_J = 2.0, tau_P = 5.0, tau_W = 0.5,
      omega_L = 1.0 / 1.0, omega_J = 1.0 / 2.0, omega_P = 1.0 / 5.0, omega_W = 1.0 / 0.5\<rparr>"

text \<open>
  The value of an attribute of a \<open>DynamicParameters\<close>. The class annotates every
  attribute as a float and Python does not enforce it: a caller can pass an integer, as in
  \<open>DynamicParameters(K_JL=1)\<close>. \<open>num\<close> is the number the value stands for in
  arithmetic, \<open>is_float\<close> is \<open>isinstance(v, float)\<close>.
\<close>

datatype pyvalue = is_float: PyFloat real | PyInt int

fun num :: "pyvalue \<Rightarrow> real" where
  "num (PyFloat x) = x"
| "num (PyInt n) = real_of_int n"

record DynamicParameters =
  alpha_LJ :: pyvalue
  alpha_LW :: pyvalue
  alpha_JL :: pyvalue
  alpha_JW :: pyvalue
  alpha_PL :: pyvalue
  alpha_PJ :: pyvalue
  alpha_WL :: pyvalue
  alpha_WJ :: pyvalue
  alpha_WP :: pyvalue
  beta_L :: pyvalue
  beta_J :: pyvalue
  beta_P :: pyvalue
  beta_W :: pyvalue
  gamma :: pyvalue
  K_JL :: pyvalue

definition DynamicParameters_default :: DynamicParameters where
  "DynamicParameters_default =
     \<lparr>alpha_LJ = PyFloat 0.12, alpha_LW = PyFloat 0.12,
      alpha_JL = PyFloat 0.14, alpha_JW = PyFloat 0.14,
      alpha_PL = PyFloat 0.12, alpha_PJ = PyFloat 0.12,
      alpha_WL = PyFloat 0.10, alpha_WJ = PyFloat 0.10, alpha_WP = PyFloat 0.10,
      beta_L = PyFloat 0.20, beta_J = PyFloat 0.20, beta_P = PyFloat 0.20,
      beta_W = PyFloat 0.24,
      gamma = PyFloat 0.08, K_JL = PyFloat 0.59\<rparr>"

subsubsection \<open>The random source\<close>

text \<open>
  The state of numpy's generator is the sequence of unit samples it will still return;
  \<open>np.random.uniform(low, high)\<close> takes the next sample \<open>t\<close> and returns
  \<open>low + (high - low) * t\<close>.
\<close>

type_synonym rng = "nat \<Rightarrow> real"

definition np_random_uniform :: "real \<Rightarrow> real \<Rightarrow> rng \<Rightarrow> real \<times> rng" where
  "np_random_uniform low high g = (low + (high - low) * g 0, \<lambda>n. g (Suc n))"

text \<open>
  The body of the loop of \<open>random_mutation\<close> for one attribute. The test is
  \<open>isinstance(val, float) and val > 0\<close>; a sample is drawn only when it holds, and
  the value stored is then a float.
\<close>

definition mutate_attr :: "real \<Rightarrow> pyvalue \<Rightarrow> rng \<Rightarrow> pyvalue \<times> rng" where
  "mutate_attr rate val g =
     (if is_float val \<and> num val > 0
      then (let (u, g') = np_random_uniform (- rate) rate g;
                noise = u * num val
            in (PyFloat (max 0.01 (num val + noise)), g'))
      else (val, g))"

text \<open>
  \<open>random_mutation\<close> visits the attributes in the order of \<open>__dict__\<close>, which is
  the order of declaration.
\<close>

definition random_mutation :: "real \<Rightarrow> DynamicParameters \<Rightarrow> rng \<Rightarrow> DynamicParameters \<times> rng" where
  "random_mutation rate self g0 =
     (let r1 = mutate_attr rate (alpha_LJ self) g0;
          r2 = mutate_attr rate (alpha_LW self) (snd r1);
          r3 = mutate_attr rate (alpha_JL self) (snd r2);
          r4 = mutate_attr rate (alpha_JW self) (snd r3);
          r5 = mutate_attr rate (alpha_PL self) (snd r4);
          r6 = mutate_attr rate (alpha_PJ self) (snd r5);
          r7 = mutate_attr rate (alpha_WL self) (snd r6);
          r8 = mutate_attr rate (alpha_WJ self) (snd r7);
          r9 = mutate_attr rate (alpha_WP self) (snd r8);
          r10 = mutate_attr rate (beta_L self) (snd r9);
          r11 = mutate_attr rate (beta_J self) (snd r10);
          r12 = mutate_attr rate (beta_P self) (snd r11);
          r13 = mutate_attr rate (beta_W self) (snd r12);
          r14 = mutate_attr rate (gamma self) (snd r13);
          r15 = mutate_attr rate (K_JL self) (snd r14)
      in (\<lparr>alpha_LJ = fst r1, alpha_LW = fst r2, alpha_JL = fst r3, alpha_JW = fst r4,
           alpha_PL = fst r5, alpha_PJ = fst r6, alpha_WL = fst r7, alpha_WJ = fst r8,
           alpha_WP = fst r9, beta_L = fst r10, beta_J = fst r11, beta_P = fst r12,
           beta_W = fst r13, gamma = fst r14, K_JL = fst r15\<rparr>, snd r15))"

text \<open>\<open>to_dict\<close> returns \<open>__dict__\<close>: the attributes by name, in declaration order.\<close>

definition to_dict :: "DynamicParameters \<Rightarrow> (string \<times> pyvalue) list" where
  "to_dict self =
     [(''alpha_LJ'', alpha_LJ self), (''alpha_LW'', alpha_LW self),
      (''alpha_JL'', alpha_JL self), (''alpha_JW'', alpha_JW self),
      (''alpha_PL'', alpha_PL self), (''alpha_PJ'', alpha_PJ self),
      (''alpha_WL'', alpha_WL self), (''alpha_WJ'', alpha_WJ self),
      (''alpha_WP'', alpha_WP self), (''beta_L'', beta_L self),
      (''beta_J'', beta_J self), (''beta_P'', beta_P self),
      (''beta_W'', beta_W self), (''gamma'', gamma self), (''K_JL'', K_JL self)]"

subsection \<open>\<open>autopoietic_engine.py\<close>: \<open>AutopoieticEngine\<close>\<close>

text \<open>
  A \<open>DynamicParameters\<close> is a mutable object that several engines may reference, so
  the parameter objects live in a store and an engine holds an address. \<open>next_addr\<close>
  is the first address never allocated.
\<close>

type_synonym addr = nat

record store =
  cells :: "addr \<Rightarrow> DynamicParameters"
  next_addr :: addr

text \<open>\<open>DynamicParameters()\<close>: a fresh object with the default coefficients.\<close>

definition DynamicParameters_new :: "store \<Rightarrow> store \<times> addr" where
  "DynamicParameters_new h =
     (h\<lparr>cells := (cells h)(next_addr h := DynamicParameters_default),
        next_addr := Suc (next_addr h)\<rparr>, next_addr h)"

text \<open>One entry of \<open>self.history\<close>; the dictionary keys carry the prefix \<open>h_\<close>.\<close>

record snapshot =
  h_time :: real
  h_tick :: int
  h_state :: "real \<times> real \<times> real \<times> real"
  h_forces :: "real list"
  h_accelerations :: "real list"
  h_efficiency :: real
  h_entropy :: real
  h_harmony :: real
  h_consciousness :: real
  h_phase :: string
  h_gift_of_finitude :: real
  h_proximity_to_anchor :: real
  h_is_finite :: bool

text \<open>The dictionary \<open>self.model\<close>.\<close>

record self_model =
  efficiency_trend :: "real list"
  entropy_trend :: "real list"
  gap_trend :: "real list"
  best_efficiency :: real
  convergence :: bool

record AutopoieticEngine =
  state :: LJPWCoordinates
  tau :: TimeConstants
  params :: addr
  history :: "snapshot list"
  time_elapsed :: real
  tick_count :: int
  model :: self_model

text \<open>
  \<open>__init__\<close>: \<open>time_constants or TimeConstants()\<close> and
  \<open>params or DynamicParameters()\<close>; instances of both classes are truthy, so a given
  object is kept as it is, by reference.
\<close>

definition AutopoieticEngine_init ::
  "store \<Rightarrow> LJPWCoordinates \<Rightarrow> TimeConstants option \<Rightarrow> addr option
     \<Rightarrow> store \<times> AutopoieticEngine" where
  "AutopoieticEngine_init h initial_state time_constants params_arg =
     (let (h', a) = (case params_arg of Some a \<Rightarrow> (h, a) | None \<Rightarrow> DynamicParameters_new h)
      in (h',
          \<lparr>state = initial_state,
           tau = (case time_constants of Some t \<Rightarrow> t | None \<Rightarrow> TimeConstants_default),
           params = a,
           history = [],
           time_elapsed = 0.0,
           tick_count = 0,
           model = \<lparr>efficiency_trend = [], entropy_trend = [], gap_trend = [],
                    best_efficiency = 0.0, convergence = False\<rparr>\<rparr>))"

text \<open>
  Part 2 of \<open>calculate_forces\<close>, the four differential equations, as a function of the
  three coupling multipliers that part 1 computes.
\<close>

definition differential_equations ::
  "DynamicParameters \<Rightarrow> LJPWCoordinates \<Rightarrow> real \<Rightarrow> real \<Rightarrow> real \<Rightarrow> real list" where
  "differential_equations p st kappa_LJ kappa_LP kappa_LW =
     (let F_L = num (alpha_LJ p) * J st * kappa_LJ + num (alpha_LW p) * W st * kappa_LW
                  - num (beta_L p) * L st;
          erosion = num (gamma p) * P st * (1 - W st / W0);
          F_J = num (alpha_JL p) * (L st / (num (K_JL p) + L st)) + num (alpha_JW p) * W st
                  - erosion - num (beta_J p) * J st;
          F_P = num (alpha_PL p) * L st * kappa_LP + num (alpha_PJ p) * J st
                  - num (beta_P p) * P st;
          F_W = num (alpha_WL p) * L st * kappa_LW + num (alpha_WJ p) * J st
                  + num (alpha_WP p) * P st - num (beta_W p) * W st
      in [F_L, F_J, F_P, F_W])"

text \<open>
  \<open>calculate_forces\<close>. The only division by a value that can be zero is
  \<open>L / (K_JL + L)\<close>, a division of Python floats (the sum of a coefficient and a
  float is a float), which raises.
\<close>

definition calculate_forces ::
  "store \<Rightarrow> AutopoieticEngine \<Rightarrow> LJPWCoordinates \<Rightarrow> error + real list" where
  "calculate_forces h self st =
     (let H = harmony_static st;
          kappa_LJ = 1.0 + 0.4 * H;
          kappa_LP = 1.0 + 0.3 * H;
          kappa_LW = 1.0 + 0.5 * H
      in if num (K_JL (cells h (params self))) + L st = 0 then Inl ZeroDivisionError
         else Inr (differential_equations (cells h (params self)) st kappa_LJ kappa_LP kappa_LW))"

definition calculate_efficiency :: "AutopoieticEngine \<Rightarrow> real" where
  "calculate_efficiency self = (let H = harmony_static (state self) in H * P (state self))"

text \<open>\<open>np.var\<close>: the population variance, the mean of the squared deviations.\<close>

definition np_mean :: "real list \<Rightarrow> real" where
  "np_mean xs = sum_list xs / real (length xs)"

definition np_var :: "real list \<Rightarrow> real" where
  "np_var xs = np_mean (map (\<lambda>x. (x - np_mean xs)^2) xs)"

text \<open>The slice \<open>xs[-10:]\<close>.\<close>

definition last10 :: "'a list \<Rightarrow> 'a list" where
  "last10 xs = drop (length xs - 10) xs"

text \<open>\<open>_record_step\<close>.\<close>

definition record_step :: "AutopoieticEngine \<Rightarrow> real list \<Rightarrow> real list \<Rightarrow> AutopoieticEngine" where
  "record_step self forces accelerations =
     (let efficiency = calculate_efficiency self;
          entropy = semantic_entropy (state self);
          gap = gift_of_finitude (state self);
          m1 = (model self)\<lparr>efficiency_trend := efficiency_trend (model self) @ [efficiency],
                             entropy_trend := entropy_trend (model self) @ [entropy],
                             gap_trend := gap_trend (model self) @ [gap]\<rparr>;
          m2 = (if efficiency > best_efficiency m1 then m1\<lparr>best_efficiency := efficiency\<rparr>
                else m1);
          m3 = (if length (efficiency_trend m2) > 10
                then (let recent = last10 (efficiency_trend m2);
                          variance = np_var recent
                      in if variance < 0.0001 then m2\<lparr>convergence := True\<rparr>
                         else m2\<lparr>convergence := False\<rparr>)
                else m2)
      in self\<lparr>model := m3,
              history := history self @
                [\<lparr>h_time = time_elapsed self,
                  h_tick = tick_count self,
                  h_state = (L (state self), J (state self), P (state self), W (state self)),
                  h_forces = forces,
                  h_accelerations = accelerations,
                  h_efficiency = efficiency,
                  h_entropy = entropy,
                  h_harmony = harmony_static (state self),
                  h_consciousness = consciousness (state self) False,
                  h_phase = phase (state self) False,
                  h_gift_of_finitude = gap,
                  h_proximity_to_anchor = proximity_to_anchor (state self),
                  h_is_finite = is_finite (state self)\<rparr>]\<rparr>)"

text \<open>\<open>step\<close>. The arrays are lists of four components.\<close>

definition step :: "store \<Rightarrow> AutopoieticEngine \<Rightarrow> real \<Rightarrow> error + AutopoieticEngine" where
  "step h self dt =
     (case calculate_forces h self (state self) of
        Inl err \<Rightarrow> Inl err
      | Inr forces \<Rightarrow>
          (let inertia_L = m_e_semantic;
               inertia_J = e_semantic;
               inertia_P = m_p_semantic;
               inertia_W = 1.0;
               inertias = [inertia_L, inertia_J, inertia_P, inertia_W];
               accelerations0 = map2 (/) forces inertias;
               max_change = 0.05;
               accelerations = map (\<lambda>a. np_clip a (- max_change) max_change) accelerations0;
               new_L = L (state self) + accelerations ! 0 * dt;
               new_J = J (state self) + accelerations ! 1 * dt;
               new_P = P (state self) + accelerations ! 2 * dt;
               new_W = W (state self) + accelerations ! 3 * dt;
               self1 = self\<lparr>state := LJPWCoordinates_new new_L new_J new_P new_W\<rparr>;
               self2 = self1\<lparr>time_elapsed := time_elapsed self1 + dt\<rparr>;
               self3 = self2\<lparr>tick_count := tick_count self2 + 1\<rparr>
           in Inr (record_step self3 forces accelerations)))"

text \<open>A sequence of \<open>step\<close> calls; the first exception ends it.\<close>

fun run :: "store \<Rightarrow> AutopoieticEngine \<Rightarrow> real list \<Rightarrow> error + AutopoieticEngine" where
  "run h self [] = Inr self"
| "run h self (dt # dts) =
     (case step h self dt of Inl err \<Rightarrow> Inl err | Inr self' \<Rightarrow> run h self' dts)"



subsubsection \<open>\<open>self_improve\<close>\<close>

text \<open>\<open>max(xs)\<close> and \<open>xs[-1]\<close> raise on an empty list.\<close>

definition py_max :: "real list \<Rightarrow> error + real" where
  "py_max xs = (case xs of [] \<Rightarrow> Inl ValueError | x # rest \<Rightarrow> Inr (foldl max x rest))"

definition py_last :: "real list \<Rightarrow> error + real" where
  "py_last xs = (case xs of [] \<Rightarrow> Inl IndexError | x # rest \<Rightarrow> Inr (last xs))"

text \<open>\<open>random_mutation\<close> called on the object at an address: the object is updated in place.\<close>

definition random_mutation_at :: "store \<Rightarrow> addr \<Rightarrow> real \<Rightarrow> rng \<Rightarrow> store \<times> rng" where
  "random_mutation_at h a rate g =
     (let r = random_mutation rate (cells h a) g
      in (h\<lparr>cells := (cells h)(a := fst r)\<rparr>, snd r))"

text \<open>
  The line printed by an iteration: \<open>IMPROVEMENT improvement sim_score\<close> or
  \<open>REJECTED sim_score best_efficiency\<close>.
\<close>

datatype outcome = IMPROVEMENT real real | REJECTED real real

text \<open>
  The local variable \<open>best_efficiency\<close> is written \<open>best_eff\<close>, the name being
  taken by the key of \<open>self.model\<close>.
  The body of the loop of \<open>self_improve\<close> up to \<open>self.params = best_params\<close>. The
  scratch engine is built by \<open>AutopoieticEngine(self.state, self.tau, self.params)\<close>,
  so it receives the address of the live engine's parameters.
\<close>

definition improve_iteration ::
  "real \<Rightarrow> store \<Rightarrow> AutopoieticEngine \<Rightarrow> rng \<Rightarrow> addr \<Rightarrow> real
     \<Rightarrow> error + (store \<times> AutopoieticEngine \<times> rng \<times> addr \<times> real \<times> outcome)" where
  "improve_iteration learning_rate h self g best_params best_eff =
     (let c = AutopoieticEngine_init h (state self) (Some (tau self)) (Some (params self));
          sim_engine0 = snd c;
          m = random_mutation_at (fst c) (params sim_engine0) learning_rate g;
          h' = fst m
      in case run h' sim_engine0 (replicate 10 0.1) of
           Inl err \<Rightarrow> Inl err
         | Inr sim_engine \<Rightarrow>
             (case py_max (efficiency_trend (model sim_engine)) of
                Inl err \<Rightarrow> Inl err
              | Inr sim_peak_efficiency \<Rightarrow>
                  (case py_last (efficiency_trend (model sim_engine)) of
                     Inl err \<Rightarrow> Inl err
                   | Inr sim_final_efficiency \<Rightarrow>
                       (let sim_score = sim_final_efficiency * 0.8 + sim_peak_efficiency * 0.2
                        in if sim_score > best_eff
                           then (if best_eff = 0 then Inl ZeroDivisionError
                                 else Inr (h', self\<lparr>params := params sim_engine\<rparr>, snd m,
                                           params sim_engine, sim_score,
                                           IMPROVEMENT ((sim_score - best_eff) / best_eff)
                                             sim_score))
                           else Inr (h', self\<lparr>params := best_params\<rparr>, snd m,
                                     best_params, best_eff,
                                     REJECTED sim_score best_eff)))))"

text \<open>The loop over \<open>range(iterations)\<close> with its \<open>break\<close> on convergence.\<close>

fun improve_loop ::
  "nat \<Rightarrow> real \<Rightarrow> store \<Rightarrow> AutopoieticEngine \<Rightarrow> rng \<Rightarrow> addr \<Rightarrow> real \<Rightarrow> outcome list
     \<Rightarrow> error + (store \<times> AutopoieticEngine \<times> rng \<times> outcome list)" where
  "improve_loop 0 learning_rate h self g best_params best_eff out = Inr (h, self, g, out)"
| "improve_loop (Suc n) learning_rate h self g best_params best_eff out =
     (case improve_iteration learning_rate h self g best_params best_eff of
        Inl err \<Rightarrow> Inl err
      | Inr (h', self', g', best_params', best_eff', line) \<Rightarrow>
          if convergence (model self') then Inr (h', self', g', out @ [line])
          else improve_loop n learning_rate h' self' g' best_params' best_eff'
                 (out @ [line]))"

definition self_improve ::
  "store \<Rightarrow> AutopoieticEngine \<Rightarrow> int \<Rightarrow> real \<Rightarrow> rng
     \<Rightarrow> error + (store \<times> AutopoieticEngine \<times> rng \<times> outcome list)" where
  "self_improve h self iterations learning_rate g =
     (let best_params = params self;
          best_eff = calculate_efficiency self
      in improve_loop (nat iterations) learning_rate h self g best_params best_eff [])"

subsection \<open>Notions used by the statements\<close>

text \<open>The domain bounds of the four coordinates.\<close>

definition in_bounds :: "LJPWCoordinates \<Rightarrow> bool" where
  "in_bounds c = (0 \<le> L c \<and> L c \<le> sqrt 2 \<and> 0 \<le> J c \<and> J c \<le> 1 \<and>
                  0 \<le> P c \<and> P c \<le> 1 \<and> 0 \<le> W c \<and> W c \<le> 1)"

text \<open>The same bounds on the tuple stored under \<open>'state'\<close> in a history entry.\<close>

definition tuple_in_bounds :: "real \<times> real \<times> real \<times> real \<Rightarrow> bool" where
  "tuple_in_bounds t =
     (case t of (l, j, p, w) \<Rightarrow>
        0 \<le> l \<and> l \<le> sqrt 2 \<and> 0 \<le> j \<and> j \<le> 1 \<and> 0 \<le> p \<and> p \<le> 1 \<and> 0 \<le> w \<and> w \<le> 1)"

text \<open>
  Steps 2 and 3 of the integrator as the specification words them: each force component
  divided by the inertia weight of its dimension, then clamped into \<open>[-0.05, 0.05]\<close>.
\<close>

definition clipped_accelerations :: "real list \<Rightarrow> real list" where
  "clipped_accelerations forces =
     [np_clip (forces ! 0 / m_e_semantic) (- 0.05) 0.05,
      np_clip (forces ! 1 / e_semantic) (- 0.05) 0.05,
      np_clip (forces ! 2 / m_p_semantic) (- 0.05) 0.05,
      np_clip (forces ! 3 / 1.0) (- 0.05) 0.05]"

text \<open>The values of \<open>__dict__\<close>, in order.\<close>

definition attrs :: "DynamicParameters \<Rightarrow> pyvalue list" where
  "attrs self = map snd (to_dict self)"

text \<open>The test that \<open>random_mutation\<close> makes on an attribute value.\<close>

definition mutation_applies :: "pyvalue \<Rightarrow> bool" where
  "mutation_applies v = (is_float v \<and> 0 < num v)"

text \<open>
  The number of samples drawn before the attribute at position \<open>i\<close> is visited: one
  for each earlier attribute that passes the test.
\<close>

definition draws_before :: "pyvalue list \<Rightarrow> nat \<Rightarrow> nat" where
  "draws_before vs i = length (filter mutation_applies (take i vs))"

text \<open>\<open>DynamicParameters(alpha_LJ=1, K_JL=1)\<close>: two coefficients given as integers.\<close>

definition int_params :: DynamicParameters where
  "int_params = DynamicParameters_default\<lparr>alpha_LJ := PyInt 1, K_JL := PyInt 1\<rparr>"

text \<open>The loop of \<open>random_mutation\<close> over a list of attribute values.\<close>

fun mutate_list :: "real \<Rightarrow> pyvalue list \<Rightarrow> rng \<Rightarrow> pyvalue list \<times> rng" where
  "mutate_list rate [] g = ([], g)"
| "mutate_list rate (v # vs) g =
     (let r = mutate_attr rate v g; rs = mutate_list rate vs (snd r)
      in (fst r # fst rs, snd rs))"

text \<open>What an engine is to an observer: its fields, with the parameter object read from the store.\<close>

definition observe ::
  "store \<Rightarrow> AutopoieticEngine
     \<Rightarrow> LJPWCoordinates \<times> DynamicParameters \<times> snapshot list \<times> real \<times> int \<times> self_model" where
  "observe h e =
     (state e, cells h (params e), history e, time_elapsed e, tick_count e, model e)"

text \<open>
  A store with no object allocated, and the engine \<open>AutopoieticEngine(LJPWCoordinates(0, 0, 0, 0))\<close>
  built in it, used as the concrete input of the examples.
\<close>

definition empty_store :: store where
  "empty_store = \<lparr>cells = (\<lambda>a. DynamicParameters_default), next_addr = 0\<rparr>"

definition origin_store :: store where
  "origin_store = fst (AutopoieticEngine_init empty_store (LJPWCoordinates_new 0 0 0 0) None None)"

definition origin_engine :: AutopoieticEngine where
  "origin_engine = snd (AutopoieticEngine_init empty_store (LJPWCoordinates_new 0 0 0 0) None None)"

text \<open>The engine \<open>AutopoieticEngine(LJPWCoordinates(1, 1, 1, 1))\<close>, built in the empty store.\<close>

definition anchor_store :: store where
  "anchor_store = fst (AutopoieticEngine_init empty_store (LJPWCoordinates_new 1 1 1 1) None None)"

definition anchor_engine :: AutopoieticEngine where
  "anchor_engine = snd (AutopoieticEngine_init empty_store (LJPWCoordinates_new 1 1 1 1) None None)"

text \<open>The elapsed times after each of a sequence of steps, from the elapsed time \<open>t\<close>.\<close>

fun times_from :: "real \<Rightarrow> real list \<Rightarrow> real list" where
  "times_from t [] = []"
| "times_from t (d # ds) = (t + d) # times_from (t + d) ds"

text \<open>
  The convergence flag agrees with the variance test of \<open>_record_step\<close>, which is made
  only when the trend holds more than 10 values.
\<close>

definition flag_recomputed :: "self_model \<Rightarrow> bool" where
  "flag_recomputed m =
     (convergence m = (10 < length (efficiency_trend m) \<and>
                       np_var (last10 (efficiency_trend m)) < 0.0001))"

text \<open>A generator whose unit samples are all 1/4: \<open>uniform(-r, r)\<close> returns \<open>-r/2\<close>.\<close>

definition quarter_samples :: rng where
  "quarter_samples = (\<lambda>n. 1 / 4)"

section \<open>Properties\<close>

subsection \<open>Coordinates and forces\<close>

lemma LJPWCoordinates_init_in_bounds: "in_bounds (LJPWCoordinates_init l j p w src conf phin)"
  by (simp add: in_bounds_def LJPWCoordinates_init_def np_clip_def)

lemma LJPWCoordinates_new_in_bounds: "in_bounds (LJPWCoordinates_new l j p w)"
  by (simp add: LJPWCoordinates_new_def LJPWCoordinates_init_in_bounds)

lemma calculate_forces_length: "calculate_forces h e st = Inr fs \<Longrightarrow> length fs = 4"
  by (auto simp: calculate_forces_def differential_equations_def Let_def split: if_splits)

lemma calculate_forces_defined:
  "num (K_JL (cells h (params e))) + L st \<noteq> 0 \<Longrightarrow> \<exists>fs. calculate_forces h e st = Inr fs"
  by (simp add: calculate_forces_def Let_def)

lemma calculate_forces_cong:
  "cells h1 (params e1) = cells h2 (params e2) \<Longrightarrow>
     calculate_forces h1 e1 st = calculate_forces h2 e2 st"
  by (simp add: calculate_forces_def Let_def)

text \<open>
  The divisors of the integrator and of the erosion term are positive constants, so the
  divisions by them are divisions by a number that is not zero.
\<close>

lemma sqrt5_bounds: "1 < sqrt 5" "sqrt 5 < 3"
proof -
  have "sqrt 1 < sqrt 5" by (simp del: real_sqrt_one)
  then show "1 < sqrt 5" by simp
  show "sqrt 5 < 3" by (rule real_less_lsqrt) simp_all
qed

lemma inertia_positive:
  "0 < m_e_semantic" "0 < e_semantic" "0 < m_p_semantic" "0 < W0"
proof -
  have p: "1 < PHI" "0 < PHI_INV" "PHI_INV < 1"
    using sqrt5_bounds by (simp_all add: PHI_def PHI_INV_def)
  show me: "0 < m_e_semantic"
    using p by (simp add: m_e_semantic_def L0_def)
  have "sqrt 1 < sqrt 2" by (simp del: real_sqrt_one)
  then show "0 < e_semantic" by (simp add: e_semantic_def J0_def)
  have "0 < PHI ^ 5" using p(1) by simp
  with me show "0 < m_p_semantic" by (simp add: m_p_semantic_def)
  show "0 < W0" by (simp add: W0_def)
qed

subsection \<open>One step\<close>

lemma np_clip_range: "lo \<le> hi \<Longrightarrow> lo \<le> np_clip x lo hi \<and> np_clip x lo hi \<le> hi"
  by (simp add: np_clip_def)

lemma clipped_accelerations_bounds:
  "list_all (\<lambda>a. - 0.05 \<le> a \<and> a \<le> 0.05) (clipped_accelerations forces)"
proof -
  have "- 0.05 \<le> np_clip x (- 0.05) 0.05 \<and> np_clip x (- 0.05) 0.05 \<le> 0.05" for x
    by (rule np_clip_range) simp
  then show ?thesis unfolding clipped_accelerations_def by simp
qed

lemma step_eq:
  assumes "calculate_forces h e (state e) = Inr fs"
  shows "step h e dt =
     Inr (record_step
       (e\<lparr>state := LJPWCoordinates_new
              (L (state e) + clipped_accelerations fs ! 0 * dt)
              (J (state e) + clipped_accelerations fs ! 1 * dt)
              (P (state e) + clipped_accelerations fs ! 2 * dt)
              (W (state e) + clipped_accelerations fs ! 3 * dt),
           time_elapsed := time_elapsed e + dt,
           tick_count := tick_count e + 1\<rparr>) fs (clipped_accelerations fs))"
proof -
  from calculate_forces_length[OF assms] obtain a b c d where fs: "fs = [a, b, c, d]"
    by (auto simp: length_Suc_conv numeral_eq_Suc)
  show ?thesis
    by (simp add: step_def assms Let_def fs clipped_accelerations_def)
qed

lemma step_raises:
  "calculate_forces h e (state e) = Inl err \<Longrightarrow> step h e dt = Inl err"
  by (simp add: step_def)

lemma record_step_fields:
  "state (record_step e fs acc) = state e"
  "tau (record_step e fs acc) = tau e"
  "params (record_step e fs acc) = params e"
  "time_elapsed (record_step e fs acc) = time_elapsed e"
  "tick_count (record_step e fs acc) = tick_count e"
  by (simp_all add: record_step_def Let_def)

lemma record_step_trends:
  "efficiency_trend (model (record_step e fs acc)) =
     efficiency_trend (model e) @ [calculate_efficiency e]"
  "entropy_trend (model (record_step e fs acc)) =
     entropy_trend (model e) @ [semantic_entropy (state e)]"
  "gap_trend (model (record_step e fs acc)) = gap_trend (model e) @ [gift_of_finitude (state e)]"
  by (simp_all add: record_step_def Let_def)

text \<open>The entry that \<open>_record_step\<close> appends, field by field.\<close>

lemma record_step_history:
  "\<exists>snap. history (record_step e fs acc) = history e @ [snap] \<and>
     h_time snap = time_elapsed e \<and> h_tick snap = tick_count e \<and>
     h_state snap = (L (state e), J (state e), P (state e), W (state e)) \<and>
     h_forces snap = fs \<and> h_accelerations snap = acc \<and>
     h_efficiency snap = harmony_static (state e) * P (state e) \<and>
     h_entropy snap = semantic_entropy (state e) \<and>
     h_harmony snap = harmony_static (state e) \<and>
     h_consciousness snap = consciousness (state e) False \<and>
     h_phase snap = phase (state e) False \<and>
     h_gift_of_finitude snap = gift_of_finitude (state e) \<and>
     h_proximity_to_anchor snap = proximity_to_anchor (state e) \<and>
     h_is_finite snap = is_finite (state e)"
  by (simp add: record_step_def Let_def calculate_efficiency_def)

text \<open>What \<open>step\<close> does whenever the force model returns, for any \<open>dt\<close>.\<close>

lemma step_characterisation:
  assumes "num (K_JL (cells h (params self))) + L (state self) \<noteq> 0"
  shows "\<exists>forces self' snap.
     calculate_forces h self (state self) = Inr forces \<and>
     step h self dt = Inr self' \<and>
     state self' = LJPWCoordinates_new
        (L (state self) + clipped_accelerations forces ! 0 * dt)
        (J (state self) + clipped_accelerations forces ! 1 * dt)
        (P (state self) + clipped_accelerations forces ! 2 * dt)
        (W (state self) + clipped_accelerations forces ! 3 * dt) \<and>
     in_bounds (state self') \<and>
     time_elapsed self' = time_elapsed self + dt \<and>
     tick_count self' = tick_count self + 1 \<and>
     params self' = params self \<and> tau self' = tau self \<and>
     history self' = history self @ [snap] \<and>
     h_time snap = time_elapsed self' \<and> h_tick snap = tick_count self' \<and>
     h_state snap = (L (state self'), J (state self'), P (state self'), W (state self')) \<and>
     h_forces snap = forces \<and> h_accelerations snap = clipped_accelerations forces \<and>
     h_efficiency snap = harmony_static (state self') * P (state self') \<and>
     h_entropy snap = semantic_entropy (state self') \<and>
     h_harmony snap = harmony_static (state self') \<and>
     h_consciousness snap = consciousness (state self') False \<and>
     h_phase snap = phase (state self') False \<and>
     h_gift_of_finitude snap = gift_of_finitude (state self') \<and>
     h_proximity_to_anchor snap = proximity_to_anchor (state self') \<and>
     h_is_finite snap = is_finite (state self')"
proof -
  from calculate_forces_defined[OF assms] obtain fs where
    fs: "calculate_forces h self (state self) = Inr fs" by blast
  define e1 where "e1 = self\<lparr>state := LJPWCoordinates_new
              (L (state self) + clipped_accelerations fs ! 0 * dt)
              (J (state self) + clipped_accelerations fs ! 1 * dt)
              (P (state self) + clipped_accelerations fs ! 2 * dt)
              (W (state self) + clipped_accelerations fs ! 3 * dt),
           time_elapsed := time_elapsed self + dt,
           tick_count := tick_count self + 1\<rparr>"
  define e2 where "e2 = record_step e1 fs (clipped_accelerations fs)"
  have st: "step h self dt = Inr e2"
    unfolding e2_def e1_def by (rule step_eq[OF fs])
  have f: "state e2 = state e1" "time_elapsed e2 = time_elapsed e1"
    "tick_count e2 = tick_count e1" "params e2 = params e1" "tau e2 = tau e1"
    unfolding e2_def by (simp_all add: record_step_fields)
  have g: "state e1 = LJPWCoordinates_new
              (L (state self) + clipped_accelerations fs ! 0 * dt)
              (J (state self) + clipped_accelerations fs ! 1 * dt)
              (P (state self) + clipped_accelerations fs ! 2 * dt)
              (W (state self) + clipped_accelerations fs ! 3 * dt)"
    "time_elapsed e1 = time_elapsed self + dt" "tick_count e1 = tick_count self + 1"
    "params e1 = params self" "tau e1 = tau self" "history e1 = history self"
    unfolding e1_def by simp_all
  from record_step_history[of e1 fs "clipped_accelerations fs"] obtain snap where
    snap: "history e2 = history e1 @ [snap]"
      "h_time snap = time_elapsed e1" "h_tick snap = tick_count e1"
      "h_state snap = (L (state e1), J (state e1), P (state e1), W (state e1))"
      "h_forces snap = fs" "h_accelerations snap = clipped_accelerations fs"
      "h_efficiency snap = harmony_static (state e1) * P (state e1)"
      "h_entropy snap = semantic_entropy (state e1)"
      "h_harmony snap = harmony_static (state e1)"
      "h_consciousness snap = consciousness (state e1) False"
      "h_phase snap = phase (state e1) False"
      "h_gift_of_finitude snap = gift_of_finitude (state e1)"
      "h_proximity_to_anchor snap = proximity_to_anchor (state e1)"
      "h_is_finite snap = is_finite (state e1)"
    unfolding e2_def by blast
  have ib: "in_bounds (state e2)"
    unfolding f g by (rule LJPWCoordinates_new_in_bounds)
  show ?thesis
    apply (rule exI[of _ fs], rule exI[of _ e2], rule exI[of _ snap])
    using fs st ib snap by (simp add: f g)
qed

subsection \<open>The engine at the origin\<close>

lemma origin_engine_fields:
  "state origin_engine = LJPWCoordinates_new 0 0 0 0"
  "tau origin_engine = TimeConstants_default"
  "params origin_engine = 0"
  "history origin_engine = []"
  "time_elapsed origin_engine = 0"
  "tick_count origin_engine = 0"
  "efficiency_trend (model origin_engine) = []"
  "convergence (model origin_engine) = False"
  "best_efficiency (model origin_engine) = 0"
  by (simp_all add: origin_engine_def AutopoieticEngine_init_def DynamicParameters_new_def
      empty_store_def)

lemma origin_store_cells: "cells origin_store a = DynamicParameters_default"
  by (simp add: origin_store_def AutopoieticEngine_init_def DynamicParameters_new_def
      empty_store_def)

lemma origin_coordinates:
  "L (LJPWCoordinates_new 0 0 0 0) = 0" "J (LJPWCoordinates_new 0 0 0 0) = 0"
  "P (LJPWCoordinates_new 0 0 0 0) = 0" "W (LJPWCoordinates_new 0 0 0 0) = 0"
  by (simp_all add: LJPWCoordinates_new_def LJPWCoordinates_init_def np_clip_def)

lemma origin_K_JL: "num (K_JL (cells origin_store a)) = 0.59"
  by (simp add: origin_store_cells DynamicParameters_default_def)

text \<open>At the origin every force vanishes, whatever the coefficients.\<close>

lemma forces_at_origin:
  assumes "L st = 0" "J st = 0" "P st = 0" "W st = 0" "num (K_JL (cells h (params e))) \<noteq> 0"
  shows "calculate_forces h e st = Inr [0, 0, 0, 0]"
  using assms by (simp add: calculate_forces_def differential_equations_def Let_def)

lemma clipped_accelerations_zero: "clipped_accelerations [0, 0, 0, 0] = [0, 0, 0, 0]"
  by (simp add: clipped_accelerations_def np_clip_def)

lemma efficiency_at_origin: "P (state e) = 0 \<Longrightarrow> calculate_efficiency e = 0"
  by (simp add: calculate_efficiency_def)

lemma step_at_origin:
  assumes "state e = LJPWCoordinates_new 0 0 0 0" "num (K_JL (cells h (params e))) \<noteq> 0"
  shows "step h e dt =
     Inr (record_step (e\<lparr>state := LJPWCoordinates_new 0 0 0 0,
                          time_elapsed := time_elapsed e + dt,
                          tick_count := tick_count e + 1\<rparr>)
            [0, 0, 0, 0] [0, 0, 0, 0])"
proof -
  have fs: "calculate_forces h e (state e) = Inr [0, 0, 0, 0]"
    using assms by (intro forces_at_origin) (simp_all add: origin_coordinates)
  show ?thesis
    using step_eq[OF fs, of dt]
    by (simp add: clipped_accelerations_zero assms(1) origin_coordinates)
qed

subsection \<open>The engine at the anchor\<close>

lemma anchor_engine_fields:
  "state anchor_engine = LJPWCoordinates_new 1 1 1 1"
  "params anchor_engine = 0"
  "history anchor_engine = []"
  "time_elapsed anchor_engine = 0"
  "tick_count anchor_engine = 0"
  by (simp_all add: anchor_engine_def AutopoieticEngine_init_def DynamicParameters_new_def
      empty_store_def)

lemma anchor_store_cells: "cells anchor_store a = DynamicParameters_default"
  by (simp add: anchor_store_def AutopoieticEngine_init_def DynamicParameters_new_def
      empty_store_def)

lemma anchor_coordinates:
  "L (LJPWCoordinates_new 1 1 1 1) = 1" "J (LJPWCoordinates_new 1 1 1 1) = 1"
  "P (LJPWCoordinates_new 1 1 1 1) = 1" "W (LJPWCoordinates_new 1 1 1 1) = 1"
  by (simp_all add: LJPWCoordinates_new_def LJPWCoordinates_init_def np_clip_def)

lemma anchor_harmony: "harmony_static (LJPWCoordinates_new 1 1 1 1) = 1"
  by (simp add: harmony_static_def distance_to_anchor_def anchor_coordinates)

text \<open>The force on the fourth coordinate at the anchor, with the default coefficients.\<close>

lemma anchor_force_W:
  "calculate_forces anchor_store anchor_engine (state anchor_engine) = Inr fs \<Longrightarrow> fs ! 3 = 0.11"
  by (auto simp: calculate_forces_def differential_equations_def Let_def anchor_engine_fields
      anchor_store_cells anchor_coordinates anchor_harmony DynamicParameters_default_def
      split: if_splits)

lemma anchor_forces_defined:
  "num (K_JL (cells anchor_store (params anchor_engine))) + L (state anchor_engine) \<noteq> 0"
  by (simp add: anchor_store_cells DynamicParameters_default_def anchor_engine_fields
      anchor_coordinates)

lemma origin_forces_defined:
  "num (K_JL (cells origin_store (params origin_engine))) + L (state origin_engine) \<noteq> 0"
  by (simp add: origin_K_JL origin_engine_fields origin_coordinates)

subsection \<open>Sequences of steps\<close>

lemma step_InrD:
  assumes "step h e dt = Inr e'"
  shows "\<exists>fs. calculate_forces h e (state e) = Inr fs \<and>
     e' = record_step
       (e\<lparr>state := LJPWCoordinates_new
              (L (state e) + clipped_accelerations fs ! 0 * dt)
              (J (state e) + clipped_accelerations fs ! 1 * dt)
              (P (state e) + clipped_accelerations fs ! 2 * dt)
              (W (state e) + clipped_accelerations fs ! 3 * dt),
           time_elapsed := time_elapsed e + dt,
           tick_count := tick_count e + 1\<rparr>) fs (clipped_accelerations fs)"
proof (cases "calculate_forces h e (state e)")
  case (Inl err)
  with assms show ?thesis by (simp add: step_raises)
next
  case (Inr fs)
  with assms step_eq[OF Inr, of dt] show ?thesis by simp
qed

lemma step_Inr_fields:
  assumes "step h e dt = Inr e'"
  shows "in_bounds (state e')" "params e' = params e" "tau e' = tau e"
    "time_elapsed e' = time_elapsed e + dt" "tick_count e' = tick_count e + 1"
    "\<exists>snap. history e' = history e @ [snap] \<and> h_time snap = time_elapsed e' \<and>
        h_tick snap = tick_count e' \<and>
        h_state snap = (L (state e'), J (state e'), P (state e'), W (state e'))"
    "efficiency_trend (model e') = efficiency_trend (model e) @ [calculate_efficiency e']"
proof -
  from step_InrD[OF assms] obtain fs where
    e': "e' = record_step
       (e\<lparr>state := LJPWCoordinates_new
              (L (state e) + clipped_accelerations fs ! 0 * dt)
              (J (state e) + clipped_accelerations fs ! 1 * dt)
              (P (state e) + clipped_accelerations fs ! 2 * dt)
              (W (state e) + clipped_accelerations fs ! 3 * dt),
           time_elapsed := time_elapsed e + dt,
           tick_count := tick_count e + 1\<rparr>) fs (clipped_accelerations fs)" by blast
  show "in_bounds (state e')" unfolding e'
    by (simp add: record_step_fields LJPWCoordinates_new_in_bounds)
  show "params e' = params e" "tau e' = tau e"
    "time_elapsed e' = time_elapsed e + dt" "tick_count e' = tick_count e + 1"
    unfolding e' by (simp_all add: record_step_fields)
  show "\<exists>snap. history e' = history e @ [snap] \<and> h_time snap = time_elapsed e' \<and>
        h_tick snap = tick_count e' \<and>
        h_state snap = (L (state e'), J (state e'), P (state e'), W (state e'))"
    unfolding e' by (simp add: record_step_def Let_def)
  show "efficiency_trend (model e') = efficiency_trend (model e) @ [calculate_efficiency e']"
    unfolding e' by (simp add: record_step_def Let_def calculate_efficiency_def)
qed

lemma run_invariant:
  assumes "run h e dts = Inr e'" and "I e"
    and "\<And>a dt b. I a \<Longrightarrow> step h a dt = Inr b \<Longrightarrow> I b"
  shows "I e'"
  using assms(1,2)
proof (induction dts arbitrary: e)
  case Nil
  then show ?case by simp
next
  case (Cons dt dts)
  from Cons.prems(1) obtain e1 where e1: "step h e dt = Inr e1" "run h e1 dts = Inr e'"
    by (auto split: sum.splits)
  from assms(3)[OF Cons.prems(2) e1(1)] have "I e1" .
  from Cons.IH[OF e1(2) this] show ?case .
qed

lemma in_bounds_tuple:
  "in_bounds c \<Longrightarrow> tuple_in_bounds (L c, J c, P c, W c)"
  by (simp add: in_bounds_def tuple_in_bounds_def)

lemma step_history_bounds:
  assumes "step h e dt = Inr e'" "list_all (\<lambda>s. tuple_in_bounds (h_state s)) (history e)"
  shows "list_all (\<lambda>s. tuple_in_bounds (h_state s)) (history e')"
proof -
  from step_Inr_fields(6)[OF assms(1)] obtain snap where
    s: "history e' = history e @ [snap]"
       "h_state snap = (L (state e'), J (state e'), P (state e'), W (state e'))" by blast
  from step_Inr_fields(1)[OF assms(1)] have "tuple_in_bounds (h_state snap)"
    unfolding s(2) by (rule in_bounds_tuple)
  with assms(2) show ?thesis by (simp add: s(1))
qed

lemma run_history:
  assumes "run h e dts = Inr e'"
  shows "\<exists>new. history e' = history e @ new \<and> length new = length dts \<and>
     map h_tick new = map (\<lambda>i. tick_count e + 1 + int i) [0..<length dts] \<and>
     map h_time new = times_from (time_elapsed e) dts \<and>
     tick_count e' = tick_count e + int (length dts) \<and>
     time_elapsed e' = time_elapsed e + sum_list dts \<and>
     params e' = params e \<and> tau e' = tau e"
  using assms
proof (induction dts arbitrary: e)
  case Nil
  then show ?case by simp
next
  case (Cons dt dts)
  from Cons.prems obtain e1 where e1: "step h e dt = Inr e1" "run h e1 dts = Inr e'"
    by (auto split: sum.splits)
  from step_Inr_fields[OF e1(1)] obtain snap where
    s: "history e1 = history e @ [snap]" "h_time snap = time_elapsed e1"
       "h_tick snap = tick_count e1"
    and f: "params e1 = params e" "tau e1 = tau e"
       "time_elapsed e1 = time_elapsed e + dt" "tick_count e1 = tick_count e + 1"
    by blast
  from Cons.IH[OF e1(2)] obtain new where
    n: "history e' = history e1 @ new" "length new = length dts"
     "map h_tick new = map (\<lambda>i. tick_count e1 + 1 + int i) [0..<length dts]"
     "map h_time new = times_from (time_elapsed e1) dts"
     "tick_count e' = tick_count e1 + int (length dts)"
     "time_elapsed e' = time_elapsed e1 + sum_list dts"
     "params e' = params e1" "tau e' = tau e1" by blast
  have ticks: "map (\<lambda>i. tick_count e + 1 + int i) [0..<length (dt # dts)] =
      (tick_count e + 1) # map (\<lambda>i. tick_count e1 + 1 + int i) [0..<length dts]"
    by (simp add: map_upt_Suc f del: upt_Suc)
  show ?case
    apply (rule exI[of _ "snap # new"])
    using n s f ticks by (simp del: upt_Suc)
qed

lemma run_total:
  assumes "0 < num (K_JL (cells h (params e)))" "0 \<le> L (state e)"
  shows "\<exists>e'. run h e dts = Inr e'"
  using assms
proof (induction dts arbitrary: e)
  case Nil
  then show ?case by simp
next
  case (Cons dt dts)
  from Cons.prems have "num (K_JL (cells h (params e))) + L (state e) \<noteq> 0" by simp
  from step_characterisation[OF this, of dt] obtain e1 where
    e1: "step h e dt = Inr e1" by blast
  from step_Inr_fields(1,2)[OF e1] Cons.prems have
    "0 < num (K_JL (cells h (params e1)))" "0 \<le> L (state e1)"
    by (simp_all add: in_bounds_def)
  from Cons.IH[OF this] e1 show ?case by simp
qed

lemma origin_K_JL_pos: "0 < num (K_JL (cells origin_store (params origin_engine)))"
  by (simp add: origin_K_JL)

lemma origin_L_nonneg: "0 \<le> L (state origin_engine)"
  by (simp add: origin_engine_fields origin_coordinates)

lemma run_total_projr:
  assumes "0 < num (K_JL (cells h (params e)))" "0 \<le> L (state e)"
  shows "run h e dts = Inr (projr (run h e dts))"
  using run_total[OF assms, of dts] by auto

lemma origin_engine_init:
  "origin_engine = snd (AutopoieticEngine_init empty_store
      (LJPWCoordinates_init 0 0 0 0 ''unknown'' 1.0 False) None None)"
  by (simp add: origin_engine_def LJPWCoordinates_new_def)

subsection \<open>\<open>simulate\<close>\<close>




subsection \<open>The convergence flag\<close>

lemma record_step_flag:
  "flag_recomputed (model e) \<Longrightarrow> flag_recomputed (model (record_step e fs acc))"
  by (simp add: flag_recomputed_def record_step_def Let_def)

lemma record_step_trend_length:
  "length (efficiency_trend (model e)) = length (history e) \<Longrightarrow>
   length (efficiency_trend (model (record_step e fs acc))) = length (history (record_step e fs acc))"
  by (simp add: record_step_def Let_def)

lemma step_flag:
  assumes "step h e dt = Inr e'"
    and "flag_recomputed (model e) \<and> length (efficiency_trend (model e)) = length (history e)"
  shows "flag_recomputed (model e') \<and> length (efficiency_trend (model e')) = length (history e')"
proof -
  from step_InrD[OF assms(1)] obtain fs where
    e': "e' = record_step
       (e\<lparr>state := LJPWCoordinates_new
              (L (state e) + clipped_accelerations fs ! 0 * dt)
              (J (state e) + clipped_accelerations fs ! 1 * dt)
              (P (state e) + clipped_accelerations fs ! 2 * dt)
              (W (state e) + clipped_accelerations fs ! 3 * dt),
           time_elapsed := time_elapsed e + dt,
           tick_count := tick_count e + 1\<rparr>) fs (clipped_accelerations fs)" by blast
  define e1 where "e1 = e\<lparr>state := LJPWCoordinates_new
              (L (state e) + clipped_accelerations fs ! 0 * dt)
              (J (state e) + clipped_accelerations fs ! 1 * dt)
              (P (state e) + clipped_accelerations fs ! 2 * dt)
              (W (state e) + clipped_accelerations fs ! 3 * dt),
           time_elapsed := time_elapsed e + dt,
           tick_count := tick_count e + 1\<rparr>"
  have e1: "model e1 = model e" "history e1 = history e" by (simp_all add: e1_def)
  have a: "flag_recomputed (model e1)" using assms(2) by (simp add: e1)
  have b: "length (efficiency_trend (model e1)) = length (history e1)"
    using assms(2) by (simp add: e1)
  show ?thesis
    unfolding e' e1_def[symmetric]
    using record_step_flag[OF a] record_step_trend_length[OF b] by blast
qed

lemma np_var_zeros: "np_var (replicate n 0) = 0"
  by (simp add: np_var_def np_mean_def sum_list_replicate)

lemma run_at_origin:
  assumes "state e = LJPWCoordinates_new 0 0 0 0" "num (K_JL (cells h (params e))) \<noteq> 0"
  shows "\<exists>e'. run h e dts = Inr e' \<and> state e' = LJPWCoordinates_new 0 0 0 0 \<and>
     params e' = params e \<and>
     efficiency_trend (model e') = efficiency_trend (model e) @ replicate (length dts) 0"
  using assms
proof (induction dts arbitrary: e)
  case Nil
  then show ?case by simp
next
  case (Cons dt dts)
  define e1 where "e1 = record_step (e\<lparr>state := LJPWCoordinates_new 0 0 0 0,
                          time_elapsed := time_elapsed e + dt,
                          tick_count := tick_count e + 1\<rparr>) [0, 0, 0, 0] [0, 0, 0, 0]"
  have s: "step h e dt = Inr e1"
    unfolding e1_def by (rule step_at_origin[OF Cons.prems])
  have f: "state e1 = LJPWCoordinates_new 0 0 0 0" "params e1 = params e"
    unfolding e1_def by (simp_all add: record_step_fields)
  have t: "efficiency_trend (model e1) = efficiency_trend (model e) @ [0]"
    unfolding e1_def
    by (simp add: record_step_trends efficiency_at_origin origin_coordinates)
  from Cons.prems(2) f have "num (K_JL (cells h (params e1))) \<noteq> 0" by simp
  from Cons.IH[OF f(1) this] obtain e' where
    "run h e1 dts = Inr e'" "state e' = LJPWCoordinates_new 0 0 0 0"
    "params e' = params e1"
    "efficiency_trend (model e') = efficiency_trend (model e1) @ replicate (length dts) 0"
    by blast
  then show ?case using s f t by (simp add: replicate_app_Cons_same)
qed

lemma origin_run:
  "run origin_store origin_engine dts = Inr (projr (run origin_store origin_engine dts))"
  "efficiency_trend (model (projr (run origin_store origin_engine dts))) =
     replicate (length dts) 0"
proof -
  have "num (K_JL (cells origin_store (params origin_engine))) \<noteq> 0" by (simp add: origin_K_JL)
  from run_at_origin[OF origin_engine_fields(1) this, of dts] obtain e' where
    e': "run origin_store origin_engine dts = Inr e'"
    "efficiency_trend (model e') = efficiency_trend (model origin_engine) @ replicate (length dts) 0"
    by blast
  show "run origin_store origin_engine dts = Inr (projr (run origin_store origin_engine dts))"
    using e'(1) by simp
  show "efficiency_trend (model (projr (run origin_store origin_engine dts))) =
     replicate (length dts) 0"
    using e' by (simp add: origin_engine_fields)
qed

lemma origin_run_flag:
  "convergence (model (projr (run origin_store origin_engine dts))) =
     (10 < length dts \<and> np_var (last10 (replicate (length dts) 0)) < 0.0001)"
proof -
  define e where "e = projr (run origin_store origin_engine dts)"
  have r: "run origin_store origin_engine dts = Inr e"
    unfolding e_def by (rule origin_run(1))
  have "flag_recomputed (model e) \<and> length (efficiency_trend (model e)) = length (history e)"
  proof (rule run_invariant[OF r,
        where I = "\<lambda>a. flag_recomputed (model a) \<and>
                        length (efficiency_trend (model a)) = length (history a)"])
    show "flag_recomputed (model origin_engine) \<and>
        length (efficiency_trend (model origin_engine)) = length (history origin_engine)"
      by (simp add: flag_recomputed_def origin_engine_fields)
  next
    fix a dt b
    assume "flag_recomputed (model a) \<and> length (efficiency_trend (model a)) = length (history a)"
      and "step origin_store a dt = Inr b"
    then show "flag_recomputed (model b) \<and> length (efficiency_trend (model b)) = length (history b)"
      using step_flag by blast
  qed
  then have "flag_recomputed (model e)" by simp
  then show ?thesis
    unfolding e_def[symmetric] flag_recomputed_def
    using origin_run(2)[of dts] by (simp add: e_def)
qed

subsection \<open>Determinism\<close>

lemma observe_eq:
  "observe h1 e1 = observe h2 e2 \<longleftrightarrow>
     state e1 = state e2 \<and> cells h1 (params e1) = cells h2 (params e2) \<and>
     history e1 = history e2 \<and> time_elapsed e1 = time_elapsed e2 \<and>
     tick_count e1 = tick_count e2 \<and> model e1 = model e2"
  by (simp add: observe_def)

lemma record_step_observe:
  assumes "state e1 = state e2" "cells h1 (params e1) = cells h2 (params e2)"
    "history e1 = history e2" "time_elapsed e1 = time_elapsed e2"
    "tick_count e1 = tick_count e2" "model e1 = model e2"
  shows "observe h1 (record_step e1 fs acc) = observe h2 (record_step e2 fs acc)"
  using assms by (simp add: observe_def record_step_def Let_def calculate_efficiency_def)

lemma step_observe:
  assumes "observe h1 e1 = observe h2 e2"
  shows "map_sum id (observe h1) (step h1 e1 dt) = map_sum id (observe h2) (step h2 e2 dt)"
proof -
  from assms have eq: "state e1 = state e2" "cells h1 (params e1) = cells h2 (params e2)"
    "history e1 = history e2" "time_elapsed e1 = time_elapsed e2"
    "tick_count e1 = tick_count e2" "model e1 = model e2"
    by (simp_all add: observe_eq)
  have cf: "calculate_forces h1 e1 (state e1) = calculate_forces h2 e2 (state e2)"
    using calculate_forces_cong[OF eq(2), of "state e1"] by (simp add: eq(1))
  show ?thesis
  proof (cases "calculate_forces h1 e1 (state e1)")
    case (Inl err)
    with cf have "calculate_forces h2 e2 (state e2) = Inl err" by simp
    from step_raises[OF Inl, of dt] step_raises[OF this, of dt] show ?thesis by simp
  next
    case (Inr fs)
    with cf have fs2: "calculate_forces h2 e2 (state e2) = Inr fs" by simp
    show ?thesis
      unfolding step_eq[OF Inr] step_eq[OF fs2]
      by (simp add: eq record_step_observe)
  qed
qed

lemma run_observe:
  assumes "observe h1 e1 = observe h2 e2"
  shows "map_sum id (observe h1) (run h1 e1 dts) = map_sum id (observe h2) (run h2 e2 dts)"
  using assms
proof (induction dts arbitrary: e1 e2)
  case Nil
  then show ?case by simp
next
  case (Cons dt dts)
  from step_observe[OF Cons.prems, of dt] show ?case
  proof (cases "step h1 e1 dt")
    case (Inl err)
    with step_observe[OF Cons.prems, of dt] have "step h2 e2 dt = Inl err"
      by (cases "step h2 e2 dt") simp_all
    with Inl show ?thesis by simp
  next
    case (Inr a)
    with step_observe[OF Cons.prems, of dt] obtain b where
      b: "step h2 e2 dt = Inr b" "observe h1 a = observe h2 b"
      by (cases "step h2 e2 dt") simp_all
    from Cons.IH[OF b(2)] Inr b(1) show ?thesis by simp
  qed
qed

lemma origin_init:
  "AutopoieticEngine_init empty_store (LJPWCoordinates_new 0 0 0 0) None None =
     (origin_store, origin_engine)"
  by (simp add: origin_store_def origin_engine_def)

subsection \<open>The self-improvement loop\<close>

text \<open>
  In every iteration that returns, accepted or rejected, the object at the address held
  by the live engine is the mutated one: the scratch engine was given that address.
\<close>

lemma improve_iteration_store:
  assumes "improve_iteration lr h self g bp be = Inr (h', self', g', bp', be', line)"
  shows "h' = h\<lparr>cells := (cells h)(params self := fst (random_mutation lr (cells h (params self)) g))\<rparr>"
    "g' = snd (random_mutation lr (cells h (params self)) g)"
  using assms
  by (auto simp: improve_iteration_def AutopoieticEngine_init_def random_mutation_at_def Let_def
      split: sum.splits if_splits)

lemma improve_iteration_rejected:
  assumes "run (h\<lparr>cells := (cells h)(params self := fst (random_mutation lr (cells h (params self)) g))\<rparr>)
              (snd (AutopoieticEngine_init h (state self) (Some (tau self)) (Some (params self))))
              (replicate 10 0.1) = Inr sim"
    and "py_max (efficiency_trend (model sim)) = Inr pk"
    and "py_last (efficiency_trend (model sim)) = Inr fin"
    and "fin * 0.8 + pk * 0.2 \<le> be"
  shows "improve_iteration lr h self g bp be =
     Inr (h\<lparr>cells := (cells h)(params self := fst (random_mutation lr (cells h (params self)) g))\<rparr>,
          self\<lparr>params := bp\<rparr>, snd (random_mutation lr (cells h (params self)) g),
          bp, be, REJECTED (fin * 0.8 + pk * 0.2) be)"
proof -
  have i: "fst (AutopoieticEngine_init h (state self) (Some (tau self)) (Some (params self))) = h"
    "params (snd (AutopoieticEngine_init h (state self) (Some (tau self)) (Some (params self)))) =
      params self"
    by (simp_all add: AutopoieticEngine_init_def)
  show ?thesis
    unfolding improve_iteration_def Let_def random_mutation_at_def
    using assms(4) by (simp add: i assms(1,2,3))
qed

lemma foldl_max_zeros: "foldl max (0::real) (replicate n 0) = 0"
  by (induction n) simp_all

lemma py_max_zeros: "py_max (replicate (Suc n) 0) = Inr 0"
  by (simp add: py_max_def foldl_max_zeros)

lemma py_last_zeros: "py_last (replicate (Suc n) 0) = Inr 0"
  by (simp add: py_last_def)

lemma mutated_default:
  "fst (random_mutation 0.1 DynamicParameters_default quarter_samples) =
     \<lparr>alpha_LJ = PyFloat 0.114, alpha_LW = PyFloat 0.114, alpha_JL = PyFloat 0.133, alpha_JW = PyFloat 0.133,
      alpha_PL = PyFloat 0.114, alpha_PJ = PyFloat 0.114, alpha_WL = PyFloat 0.095, alpha_WJ = PyFloat 0.095, alpha_WP = PyFloat 0.095,
      beta_L = PyFloat 0.19, beta_J = PyFloat 0.19, beta_P = PyFloat 0.19, beta_W = PyFloat 0.228,
      gamma = PyFloat 0.076, K_JL = PyFloat 0.5605\<rparr>"
  by (simp add: random_mutation_def mutate_attr_def np_random_uniform_def
      DynamicParameters_default_def Let_def quarter_samples_def)


lemma self_improve_at_origin:
  "self_improve origin_store origin_engine 1 0.1 quarter_samples =
     Inr (origin_store\<lparr>cells := (cells origin_store)
             (params origin_engine :=
                fst (random_mutation 0.1 (cells origin_store (params origin_engine)) quarter_samples))\<rparr>,
          origin_engine\<lparr>params := params origin_engine\<rparr>,
          snd (random_mutation 0.1 (cells origin_store (params origin_engine)) quarter_samples),
          [REJECTED 0 0])"
proof -
  define h' where "h' = origin_store\<lparr>cells := (cells origin_store)
             (params origin_engine :=
                fst (random_mutation 0.1 (cells origin_store (params origin_engine)) quarter_samples))\<rparr>"
  define sim0 where "sim0 = snd (AutopoieticEngine_init origin_store (state origin_engine)
      (Some (tau origin_engine)) (Some (params origin_engine)))"
  have s0: "state sim0 = LJPWCoordinates_new 0 0 0 0" "params sim0 = params origin_engine"
    "efficiency_trend (model sim0) = []"
    by (simp_all add: sim0_def AutopoieticEngine_init_def origin_engine_fields)
  have k: "num (K_JL (cells h' (params sim0))) \<noteq> 0"
    by (simp add: h'_def s0 origin_store_cells mutated_default)
  from run_at_origin[OF s0(1) k, of "replicate 10 0.1"] obtain sim where
    sim: "run h' sim0 (replicate 10 0.1) = Inr sim"
      "efficiency_trend (model sim) = replicate 10 0"
    by (auto simp: s0)
  have pk: "py_max (efficiency_trend (model sim)) = Inr 0"
    unfolding sim(2) using py_max_zeros[of 9] by simp
  have fin: "py_last (efficiency_trend (model sim)) = Inr 0"
    unfolding sim(2) using py_last_zeros[of 9] by simp
  have be: "calculate_efficiency origin_engine = 0"
    by (simp add: efficiency_at_origin origin_engine_fields origin_coordinates)
  have le: "(0::real) * 0.8 + 0 * 0.2 \<le> 0" by simp
  have it: "improve_iteration 0.1 origin_store origin_engine quarter_samples (params origin_engine) 0 =
     Inr (h', origin_engine\<lparr>params := params origin_engine\<rparr>,
          snd (random_mutation 0.1 (cells origin_store (params origin_engine)) quarter_samples),
          params origin_engine, 0, REJECTED (0 * 0.8 + 0 * 0.2) 0)"
    unfolding h'_def
    by (rule improve_iteration_rejected[OF sim(1)[unfolded h'_def sim0_def] pk fin le])
  have c: "\<not> convergence (model (origin_engine\<lparr>params := params origin_engine\<rparr>))"
    by (simp add: origin_engine_fields)
  show ?thesis
    unfolding self_improve_def Let_def be h'_def[symmetric]
    using it c by simp
qed

subsection \<open>Random mutation of the parameters\<close>

lemma mutate_attr_fst:
  "fst (mutate_attr rate v g) =
     (if mutation_applies v
      then PyFloat (max 0.01 (num v + fst (np_random_uniform (- rate) rate g) * num v))
      else v)"
  by (simp add: mutate_attr_def mutation_applies_def Let_def split: prod.splits)

lemma mutate_attr_snd:
  "snd (mutate_attr rate v g) = (if mutation_applies v then (\<lambda>n. g (Suc n)) else g)"
  by (simp add: mutate_attr_def mutation_applies_def np_random_uniform_def Let_def)

lemma random_mutation_attrs:
  "attrs (fst (random_mutation rate p g)) = fst (mutate_list rate (attrs p) g)"
  by (simp add: random_mutation_def attrs_def to_dict_def Let_def)

lemma random_mutation_rng:
  "snd (random_mutation rate p g) = snd (mutate_list rate (attrs p) g)"
  by (simp add: random_mutation_def attrs_def to_dict_def Let_def)

lemma length_mutate_list: "length (fst (mutate_list rate vs g)) = length vs"
  by (induction vs arbitrary: g) (simp_all add: Let_def)

text \<open>The generator after the loop: one sample consumed per attribute that passed the test.\<close>

lemma mutate_list_rng:
  "snd (mutate_list rate vs g) = (\<lambda>k. g (length (filter mutation_applies vs) + k))"
proof (induction vs arbitrary: g)
  case Nil
  show ?case by simp
next
  case (Cons v vs)
  show ?case
  proof (cases "mutation_applies v")
    case True
    then show ?thesis by (simp add: Let_def Cons.IH mutate_attr_snd)
  next
    case False
    then show ?thesis by (simp add: Let_def Cons.IH mutate_attr_snd)
  qed
qed

text \<open>The value at each position after the loop, with the sample it consumed.\<close>

lemma mutate_list_nth:
  "i < length vs \<Longrightarrow>
     fst (mutate_list rate vs g) ! i =
       (if mutation_applies (vs ! i)
        then PyFloat (max 0.01 (num (vs ! i) +
               fst (np_random_uniform (- rate) rate (\<lambda>k. g (draws_before vs i + k))) * num (vs ! i)))
        else vs ! i)"
proof (induction vs arbitrary: g i)
  case Nil
  then show ?case by simp
next
  case (Cons v vs)
  show ?case
  proof (cases i)
    case 0
    then show ?thesis by (simp add: Let_def mutate_attr_fst draws_before_def)
  next
    case (Suc j)
    then have j: "j < length vs" using Cons.prems by simp
    show ?thesis
    proof (cases "mutation_applies v")
      case True
      then have g': "snd (mutate_attr rate v g) = (\<lambda>n. g (Suc n))"
        by (simp add: mutate_attr_snd)
      have d: "draws_before (v # vs) (Suc j) = Suc (draws_before vs j)"
        using True by (simp add: draws_before_def)
      show ?thesis
        using Cons.IH[OF j, of "\<lambda>n. g (Suc n)"] Suc
        by (simp add: Let_def g' d)
    next
      case False
      then have g': "snd (mutate_attr rate v g) = g"
        by (simp add: mutate_attr_snd)
      have d: "draws_before (v # vs) (Suc j) = draws_before vs j"
        using False by (simp add: draws_before_def)
      show ?thesis
        using Cons.IH[OF j, of g] Suc
        by (simp add: Let_def g' d)
    qed
  qed
qed

lemma int_params_attrs:
  "attrs int_params =
     [PyInt 1, PyFloat 0.12, PyFloat 0.14, PyFloat 0.14, PyFloat 0.12, PyFloat 0.12,
      PyFloat 0.10, PyFloat 0.10, PyFloat 0.10, PyFloat 0.20, PyFloat 0.20, PyFloat 0.20,
      PyFloat 0.24, PyFloat 0.08, PyInt 1]"
  by (simp add: int_params_def attrs_def to_dict_def DynamicParameters_default_def)

text \<open>
  Claim C9 says that every coefficient that is strictly positive before a call of
  \<open>random_mutation(rate)\<close> is updated by the rule
  \<open>max(0.01, value + uniform(-rate, rate) * value)\<close>. The code applies the rule only
  to an attribute that is a float: on \<open>DynamicParameters(alpha_LJ=1, K_JL=1)\<close>, at
  rate 0.5 and with unit samples 1/4, the two integer coefficients are positive and stay
  the integer 1, where the rule gives 0.75.
\<close>

theorem random_mutation_int_counterexample:
  "0 < num (alpha_LJ int_params) \<and>
   alpha_LJ (fst (random_mutation 0.5 int_params quarter_samples)) = PyInt 1 \<and>
   max 0.01 (num (alpha_LJ int_params) +
     fst (np_random_uniform (- 0.5) 0.5 quarter_samples) * num (alpha_LJ int_params)) = 0.75 \<and>
   0 < num (K_JL int_params) \<and>
   K_JL (fst (random_mutation 0.5 int_params quarter_samples)) = PyInt 1"
  by (simp add: random_mutation_def mutate_attr_def np_random_uniform_def int_params_def
      DynamicParameters_default_def quarter_samples_def Let_def)

text \<open>
  Claim C9, amended. After one call of \<open>random_mutation(rate)\<close>, for any rate and any
  samples of the generator, every coefficient that is a float and strictly positive before
  the call is replaced by the float \<open>max(0.01, value + uniform(-rate, rate) * value)\<close>,
  the sample being the next one of the generator in the order of the attributes, and is
  therefore at least 0.01 afterwards; every coefficient that is not a float or is not
  positive is left as it is and draws no sample.
\<close>

theorem random_mutation_rule:
  assumes "i < length (attrs p)"
  shows "(is_float (attrs p ! i) \<and> 0 < num (attrs p ! i) \<longrightarrow>
            attrs (fst (random_mutation rate p g)) ! i =
              PyFloat (max 0.01 (num (attrs p ! i) +
                fst (np_random_uniform (- rate) rate (\<lambda>k. g (draws_before (attrs p) i + k))) *
                  num (attrs p ! i))) \<and>
            0.01 \<le> num (attrs (fst (random_mutation rate p g)) ! i)) \<and>
         (\<not> (is_float (attrs p ! i) \<and> 0 < num (attrs p ! i)) \<longrightarrow>
            attrs (fst (random_mutation rate p g)) ! i = attrs p ! i) \<and>
         draws_before (attrs p) i =
           length (filter (\<lambda>v. is_float v \<and> 0 < num v) (take i (attrs p))) \<and>
         snd (random_mutation rate p g) =
           (\<lambda>k. g (length (filter (\<lambda>v. is_float v \<and> 0 < num v) (attrs p)) + k))"
proof -
  have m: "mutation_applies = (\<lambda>v. is_float v \<and> 0 < num v)"
    by (rule ext) (simp add: mutation_applies_def)
  have n: "attrs (fst (random_mutation rate p g)) ! i =
       (if mutation_applies (attrs p ! i)
        then PyFloat (max 0.01 (num (attrs p ! i) +
               fst (np_random_uniform (- rate) rate (\<lambda>k. g (draws_before (attrs p) i + k))) *
                 num (attrs p ! i)))
        else attrs p ! i)"
    unfolding random_mutation_attrs by (rule mutate_list_nth[OF assms])
  have r: "snd (random_mutation rate p g) =
      (\<lambda>k. g (length (filter mutation_applies (attrs p)) + k))"
    unfolding random_mutation_rng by (rule mutate_list_rng)
  have d: "draws_before (attrs p) i = length (filter mutation_applies (take i (attrs p)))"
    by (simp add: draws_before_def)
  show ?thesis
    using n r d unfolding m by simp
qed

text \<open>
  \<open>DynamicParameters(alpha_LJ=1, K_JL=1)\<close> at rate 0.5 with unit samples 1/4: the
  second coefficient, the float 0.12, takes the first sample and becomes 0.09; the first
  coefficient, the integer 1, is left as it is; 13 samples are consumed.
\<close>

theorem random_mutation_rule_witness:
  "1 < length (attrs int_params) \<and>
   is_float (attrs int_params ! 1) \<and> 0 < num (attrs int_params ! 1) \<and>
   draws_before (attrs int_params) 1 = 0 \<and>
   attrs (fst (random_mutation 0.5 int_params quarter_samples)) ! 1 = PyFloat 0.09 \<and>
   0 < length (attrs int_params) \<and>
   \<not> is_float (attrs int_params ! 0) \<and>
   attrs (fst (random_mutation 0.5 int_params quarter_samples)) ! 0 = PyInt 1 \<and>
   snd (random_mutation 0.5 int_params quarter_samples) = (\<lambda>k. quarter_samples (13 + k))"
proof -
  have a: "1 < length (attrs int_params)" "0 < length (attrs int_params)"
    by (simp_all add: int_params_attrs)
  have b: "is_float (attrs int_params ! 1)" "0 < num (attrs int_params ! 1)"
    "\<not> is_float (attrs int_params ! 0)" "attrs int_params ! 0 = PyInt 1"
    "num (attrs int_params ! 1) = 0.12"
    by (simp_all add: int_params_attrs)
  have c: "draws_before (attrs int_params) 1 = 0"
    by (simp add: draws_before_def int_params_attrs mutation_applies_def)
  have u: "fst (np_random_uniform (- 0.5) 0.5 (\<lambda>k. quarter_samples (0 + k))) = - 0.25"
    by (simp add: np_random_uniform_def quarter_samples_def)
  have l: "length (filter (\<lambda>v. is_float v \<and> 0 < num v) (attrs int_params)) = 13"
    by (simp add: int_params_attrs)
  from random_mutation_rule[OF a(1), where rate = "0.5" and g = quarter_samples] b(1,2)
  have "attrs (fst (random_mutation 0.5 int_params quarter_samples)) ! 1 =
      PyFloat (max 0.01 (num (attrs int_params ! 1) +
        fst (np_random_uniform (- 0.5) 0.5
               (\<lambda>k. quarter_samples (draws_before (attrs int_params) 1 + k))) *
          num (attrs int_params ! 1)))"
    and r: "snd (random_mutation 0.5 int_params quarter_samples) =
      (\<lambda>k. quarter_samples
         (length (filter (\<lambda>v. is_float v \<and> 0 < num v) (attrs int_params)) + k))"
    by simp_all
  then have x: "attrs (fst (random_mutation 0.5 int_params quarter_samples)) ! 1 = PyFloat 0.09"
    unfolding c u b(5) by simp
  from random_mutation_rule[OF a(2), where rate = "0.5" and g = quarter_samples] b(3,4)
  have y: "attrs (fst (random_mutation 0.5 int_params quarter_samples)) ! 0 = PyInt 1"
    by simp
  show ?thesis
    using a b(1,2,3) c x y r[unfolded l] by simp
qed

subsection \<open>The integrator\<close>

text \<open>
  Claim C4. For every engine and every \<open>dt > 0\<close> on which the force model returns,
  \<open>step(dt)\<close> computes the force vector of the current state and parameters, divides
  each component by the inertia weight of its dimension and clamps it into
  \<open>[-0.05, 0.05]\<close>, sets each coordinate to \<open>old + acceleration * dt\<close> through the
  constructor of the coordinates, which clamps it into the domain bounds, adds \<open>dt\<close> to
  the elapsed time and 1 to the step counter, and appends one history entry that holds
  the derived metrics of the new state.
\<close>

theorem step_algorithm:
  assumes "0 < dt" and "num (K_JL (cells h (params self))) + L (state self) \<noteq> 0"
  shows "\<exists>forces self' snap.
     calculate_forces h self (state self) = Inr forces \<and>
     step h self dt = Inr self' \<and>
     state self' = LJPWCoordinates_new
        (L (state self) + clipped_accelerations forces ! 0 * dt)
        (J (state self) + clipped_accelerations forces ! 1 * dt)
        (P (state self) + clipped_accelerations forces ! 2 * dt)
        (W (state self) + clipped_accelerations forces ! 3 * dt) \<and>
     in_bounds (state self') \<and>
     time_elapsed self' = time_elapsed self + dt \<and>
     tick_count self' = tick_count self + 1 \<and>
     params self' = params self \<and> tau self' = tau self \<and>
     history self' = history self @ [snap] \<and>
     h_time snap = time_elapsed self' \<and> h_tick snap = tick_count self' \<and>
     h_state snap = (L (state self'), J (state self'), P (state self'), W (state self')) \<and>
     h_forces snap = forces \<and> h_accelerations snap = clipped_accelerations forces \<and>
     list_all (\<lambda>a. - 0.05 \<le> a \<and> a \<le> 0.05) (h_accelerations snap) \<and>
     h_efficiency snap = harmony_static (state self') * P (state self') \<and>
     h_entropy snap = semantic_entropy (state self') \<and>
     h_harmony snap = harmony_static (state self') \<and>
     h_consciousness snap = consciousness (state self') False \<and>
     h_phase snap = phase (state self') False \<and>
     h_gift_of_finitude snap = gift_of_finitude (state self') \<and>
     h_proximity_to_anchor snap = proximity_to_anchor (state self') \<and>
     h_is_finite snap = is_finite (state self')"
proof -
  from step_characterisation[OF assms(2), of dt] obtain forces self' snap where
    a: "calculate_forces h self (state self) = Inr forces \<and>
     step h self dt = Inr self' \<and>
     state self' = LJPWCoordinates_new
        (L (state self) + clipped_accelerations forces ! 0 * dt)
        (J (state self) + clipped_accelerations forces ! 1 * dt)
        (P (state self) + clipped_accelerations forces ! 2 * dt)
        (W (state self) + clipped_accelerations forces ! 3 * dt) \<and>
     in_bounds (state self') \<and>
     time_elapsed self' = time_elapsed self + dt \<and>
     tick_count self' = tick_count self + 1 \<and>
     params self' = params self \<and> tau self' = tau self \<and>
     history self' = history self @ [snap] \<and>
     h_time snap = time_elapsed self' \<and> h_tick snap = tick_count self' \<and>
     h_state snap = (L (state self'), J (state self'), P (state self'), W (state self')) \<and>
     h_forces snap = forces \<and> h_accelerations snap = clipped_accelerations forces \<and>
     h_efficiency snap = harmony_static (state self') * P (state self') \<and>
     h_entropy snap = semantic_entropy (state self') \<and>
     h_harmony snap = harmony_static (state self') \<and>
     h_consciousness snap = consciousness (state self') False \<and>
     h_phase snap = phase (state self') False \<and>
     h_gift_of_finitude snap = gift_of_finitude (state self') \<and>
     h_proximity_to_anchor snap = proximity_to_anchor (state self') \<and>
     h_is_finite snap = is_finite (state self')"
    by blast
  then have "list_all (\<lambda>a. - 0.05 \<le> a \<and> a \<le> 0.05) (h_accelerations snap)"
    using clipped_accelerations_bounds[of forces] by simp
  with a show ?thesis by blast
qed

text \<open>The engine at the origin, one step of 0.1.\<close>

theorem step_algorithm_witness:
  "(0::real) < 0.1 \<and>
   num (K_JL (cells origin_store (params origin_engine))) + L (state origin_engine) \<noteq> 0 \<and>
   (\<exists>self' snap. step origin_store origin_engine 0.1 = Inr self' \<and>
      time_elapsed self' = 0.1 \<and> tick_count self' = 1 \<and> history self' = [snap])"
proof -
  have a: "(0::real) < 0.1" by simp
  have b: "num (K_JL (cells origin_store (params origin_engine))) + L (state origin_engine) \<noteq> 0"
    by (simp add: origin_K_JL origin_engine_fields origin_coordinates)
  from step_algorithm[OF a b] show ?thesis
    using b by (auto simp: origin_engine_fields)
qed

text \<open>
  Claim C7 says that \<open>step\<close> with \<open>dt \<le> 0\<close> is rejected before any mutation. The code
  has no check of \<open>dt\<close>: at the anchor, \<open>step(-1)\<close> returns normally, having moved the
  fourth coordinate from 1 to 0.95, the elapsed time from 0 to -1, the step counter from
  0 to 1 and the history from no entry to one.
\<close>

theorem step_nonpositive_dt_counterexample:
  "\<not> isl (step anchor_store anchor_engine (- 1)) \<and>
   W (state anchor_engine) = 1 \<and>
   W (state (projr (step anchor_store anchor_engine (- 1)))) = 0.95 \<and>
   time_elapsed anchor_engine = 0 \<and>
   time_elapsed (projr (step anchor_store anchor_engine (- 1))) = - 1 \<and>
   tick_count anchor_engine = 0 \<and>
   tick_count (projr (step anchor_store anchor_engine (- 1))) = 1 \<and>
   length (history anchor_engine) = 0 \<and>
   length (history (projr (step anchor_store anchor_engine (- 1)))) = 1"
proof -
  from step_characterisation[OF anchor_forces_defined, of "- 1"] obtain forces self' snap where
    a: "calculate_forces anchor_store anchor_engine (state anchor_engine) = Inr forces"
    "step anchor_store anchor_engine (- 1) = Inr self'"
    "state self' = LJPWCoordinates_new
        (L (state anchor_engine) + clipped_accelerations forces ! 0 * (- 1))
        (J (state anchor_engine) + clipped_accelerations forces ! 1 * (- 1))
        (P (state anchor_engine) + clipped_accelerations forces ! 2 * (- 1))
        (W (state anchor_engine) + clipped_accelerations forces ! 3 * (- 1))"
    "time_elapsed self' = time_elapsed anchor_engine + (- 1)"
    "tick_count self' = tick_count anchor_engine + 1"
    "history self' = history anchor_engine @ [snap]"
    by blast
  have "clipped_accelerations forces ! 3 = 0.05"
    using anchor_force_W[OF a(1)] by (simp add: clipped_accelerations_def np_clip_def)
  then have "W (state self') = 0.95"
    using a(3)
    by (simp add: anchor_engine_fields anchor_coordinates LJPWCoordinates_new_def
        LJPWCoordinates_init_def np_clip_def)
  then show ?thesis
    using a(2,4,5,6) by (simp add: anchor_engine_fields anchor_coordinates)
qed

text \<open>
  Claim C7, amended. \<open>step\<close> does not validate \<open>dt\<close>: for \<open>dt \<le> 0\<close>, whenever the
  force model returns, it runs the same update as for a positive \<open>dt\<close>: every coordinate
  becomes \<open>old + acceleration * dt\<close> clamped into its bounds, \<open>dt\<close> is added to the
  elapsed time (which therefore does not increase), the step counter grows by 1 and one
  history entry is appended.
\<close>

theorem step_nonpositive_dt:
  assumes "dt \<le> 0" and "num (K_JL (cells h (params self))) + L (state self) \<noteq> 0"
  shows "\<exists>forces self' snap.
     calculate_forces h self (state self) = Inr forces \<and>
     step h self dt = Inr self' \<and>
     state self' = LJPWCoordinates_new
        (L (state self) + clipped_accelerations forces ! 0 * dt)
        (J (state self) + clipped_accelerations forces ! 1 * dt)
        (P (state self) + clipped_accelerations forces ! 2 * dt)
        (W (state self) + clipped_accelerations forces ! 3 * dt) \<and>
     time_elapsed self' = time_elapsed self + dt \<and>
     time_elapsed self' \<le> time_elapsed self \<and>
     tick_count self' = tick_count self + 1 \<and>
     history self' = history self @ [snap] \<and>
     h_time snap = time_elapsed self' \<and> h_tick snap = tick_count self'"
proof -
  from step_characterisation[OF assms(2), of dt] obtain forces self' snap where
    "calculate_forces h self (state self) = Inr forces"
    "step h self dt = Inr self'"
    "state self' = LJPWCoordinates_new
        (L (state self) + clipped_accelerations forces ! 0 * dt)
        (J (state self) + clipped_accelerations forces ! 1 * dt)
        (P (state self) + clipped_accelerations forces ! 2 * dt)
        (W (state self) + clipped_accelerations forces ! 3 * dt)"
    "time_elapsed self' = time_elapsed self + dt"
    "tick_count self' = tick_count self + 1"
    "history self' = history self @ [snap]"
    "h_time snap = time_elapsed self'" "h_tick snap = tick_count self'"
    by blast
  with assms(1) show ?thesis by auto
qed

text \<open>The engine at the origin, one step of 0.\<close>

theorem step_nonpositive_dt_witness:
  "(0::real) \<le> 0 \<and>
   num (K_JL (cells origin_store (params origin_engine))) + L (state origin_engine) \<noteq> 0 \<and>
   (\<exists>self' snap. step origin_store origin_engine 0 = Inr self' \<and>
      time_elapsed self' = 0 \<and> tick_count self' = 1 \<and> history self' = [snap])"
proof -
  have a: "(0::real) \<le> 0" by simp
  from step_nonpositive_dt[OF a origin_forces_defined] show ?thesis
    using origin_forces_defined by (auto simp: origin_engine_fields)
qed

subsection \<open>The bounds of the coordinates\<close>

text \<open>
  Claim C2. Every coordinate object is clamped at construction, and for every engine
  built on constructed coordinates and every sequence of \<open>step\<close> calls that returns, the
  state reached has its first coordinate in \<open>[0, sqrt 2]\<close> and the other three in
  \<open>[0, 1]\<close>; so has every state recorded in the history.
\<close>

theorem state_bounds:
  assumes "run h (snd (AutopoieticEngine_init h0 (LJPWCoordinates_init l j p w src conf phin) t pa))
             dts = Inr e"
  shows "in_bounds (LJPWCoordinates_init l j p w src conf phin) \<and>
         in_bounds (state e) \<and>
         list_all (\<lambda>s. tuple_in_bounds (h_state s)) (history e)"
proof -
  let ?c = "LJPWCoordinates_init l j p w src conf phin"
  let ?e0 = "snd (AutopoieticEngine_init h0 ?c t pa)"
  have c: "in_bounds ?c" by (rule LJPWCoordinates_init_in_bounds)
  have s0: "state ?e0 = ?c" "history ?e0 = []"
    by (simp_all add: AutopoieticEngine_init_def split: prod.splits option.splits)
  have "in_bounds (state e) \<and> list_all (\<lambda>s. tuple_in_bounds (h_state s)) (history e)"
  proof (rule run_invariant[OF assms,
        where I = "\<lambda>a. in_bounds (state a) \<and> list_all (\<lambda>s. tuple_in_bounds (h_state s)) (history a)"])
    show "in_bounds (state ?e0) \<and> list_all (\<lambda>s. tuple_in_bounds (h_state s)) (history ?e0)"
      using c by (simp add: s0)
  next
    fix a dt b
    assume "in_bounds (state a) \<and> list_all (\<lambda>s. tuple_in_bounds (h_state s)) (history a)"
      and "step h a dt = Inr b"
    then show "in_bounds (state b) \<and> list_all (\<lambda>s. tuple_in_bounds (h_state s)) (history b)"
      using step_Inr_fields(1) step_history_bounds by blast
  qed
  with c show ?thesis by simp
qed

text \<open>The engine at the origin, two steps of 0.1.\<close>

theorem state_bounds_witness:
  "run origin_store
     (snd (AutopoieticEngine_init empty_store
        (LJPWCoordinates_init 0 0 0 0 ''unknown'' 1.0 False) None None)) [0.1, 0.1] =
     Inr (projr (run origin_store origin_engine [0.1, 0.1])) \<and>
   in_bounds (state (projr (run origin_store origin_engine [0.1, 0.1]))) \<and>
   length (history (projr (run origin_store origin_engine [0.1, 0.1]))) = 2"
proof -
  have r: "run origin_store
     (snd (AutopoieticEngine_init empty_store
        (LJPWCoordinates_init 0 0 0 0 ''unknown'' 1.0 False) None None)) [0.1, 0.1] =
     Inr (projr (run origin_store origin_engine [0.1, 0.1]))"
    unfolding origin_engine_init[symmetric]
    by (rule run_total_projr[OF origin_K_JL_pos origin_L_nonneg])
  from run_history[OF r[unfolded origin_engine_init[symmetric]]]
  have "length (history (projr (run origin_store origin_engine [0.1, 0.1]))) = 2"
    by (auto simp: origin_engine_fields)
  with state_bounds[OF r] r show ?thesis by simp
qed



text \<open>
  Claim C3 says that with at least 10 recorded efficiency values the flag is true exactly
  when the variance of the last 10 is below 0.0001. The code makes the test only when
  the trend holds more than 10 values: after ten steps of 0.1 at the origin the trend
  holds ten values, all 0, their variance is 0, and the flag is still false.
\<close>

theorem convergence_at_ten_counterexample:
  "\<not> isl (run origin_store origin_engine (replicate 10 0.1)) \<and>
   length (efficiency_trend (model (projr (run origin_store origin_engine (replicate 10 0.1))))) = 10 \<and>
   np_var (last10 (efficiency_trend
      (model (projr (run origin_store origin_engine (replicate 10 0.1)))))) < 0.0001 \<and>
   \<not> convergence (model (projr (run origin_store origin_engine (replicate 10 0.1))))"
proof -
  let ?dts = "replicate 10 (0.1::real)"
  have a: "\<not> isl (run origin_store origin_engine ?dts)"
    using origin_run(1)[of ?dts] by (metis sum.disc(2))
  have t: "efficiency_trend (model (projr (run origin_store origin_engine ?dts))) = replicate 10 0"
    using origin_run(2)[of ?dts] by simp
  have c: "\<not> convergence (model (projr (run origin_store origin_engine ?dts)))"
    unfolding origin_run_flag by simp
  have v: "np_var (last10 (replicate 10 (0::real))) < 0.0001"
    by (simp add: last10_def np_var_zeros)
  show ?thesis using a c v unfolding t by simp
qed

text \<open>
  Claim C3, amended. On an engine built by the constructor, after every sequence of steps
  that returns, the flag is true exactly when more than 10 efficiency values are recorded
  and the variance of the last 10 is below 0.0001; with 10 values or fewer it is false.
  One value is recorded per step, so the flag is recomputed at every step from the
  eleventh on.
\<close>

theorem convergence_flag:
  assumes "run h (snd (AutopoieticEngine_init h0 c t pa)) dts = Inr e"
  shows "convergence (model e) =
           (10 < length (efficiency_trend (model e)) \<and>
            np_var (last10 (efficiency_trend (model e))) < 0.0001) \<and>
         length (efficiency_trend (model e)) = length (history e) \<and>
         length (history e) = length dts"
proof -
  let ?e0 = "snd (AutopoieticEngine_init h0 c t pa)"
  have e0: "history ?e0 = []" "efficiency_trend (model ?e0) = []" "convergence (model ?e0) = False"
    by (simp_all add: AutopoieticEngine_init_def split: prod.splits option.splits)
  have "flag_recomputed (model e) \<and> length (efficiency_trend (model e)) = length (history e)"
  proof (rule run_invariant[OF assms,
        where I = "\<lambda>a. flag_recomputed (model a) \<and>
                        length (efficiency_trend (model a)) = length (history a)"])
    show "flag_recomputed (model ?e0) \<and> length (efficiency_trend (model ?e0)) = length (history ?e0)"
      by (simp add: flag_recomputed_def e0)
  next
    fix a dt b
    assume "flag_recomputed (model a) \<and> length (efficiency_trend (model a)) = length (history a)"
      and "step h a dt = Inr b"
    then show "flag_recomputed (model b) \<and> length (efficiency_trend (model b)) = length (history b)"
      using step_flag by blast
  qed
  moreover from run_history[OF assms] have "length (history e) = length dts"
    by (auto simp: e0)
  ultimately show ?thesis by (simp add: flag_recomputed_def)
qed

text \<open>Eleven steps of 0.1 at the origin: the flag is true.\<close>

theorem convergence_flag_witness:
  "run origin_store
     (snd (AutopoieticEngine_init empty_store (LJPWCoordinates_new 0 0 0 0) None None))
     (replicate 11 0.1) = Inr (projr (run origin_store origin_engine (replicate 11 0.1))) \<and>
   convergence (model (projr (run origin_store origin_engine (replicate 11 0.1)))) \<and>
   length (history (projr (run origin_store origin_engine (replicate 11 0.1)))) = 11"
proof -
  define e where "e = projr (run origin_store origin_engine (replicate 11 0.1))"
  have r: "run origin_store
     (snd (AutopoieticEngine_init empty_store (LJPWCoordinates_new 0 0 0 0) None None))
     (replicate 11 0.1) = Inr e"
    unfolding origin_engine_def[symmetric] e_def by (rule origin_run(1))
  have t: "efficiency_trend (model e) = replicate 11 0"
    unfolding e_def using origin_run(2)[of "replicate 11 0.1"] by simp
  have v: "np_var (last10 (replicate 11 (0::real))) < 0.0001"
    by (simp add: last10_def np_var_zeros)
  from convergence_flag[OF r] have
    "convergence (model e) =
       (10 < length (efficiency_trend (model e)) \<and>
        np_var (last10 (efficiency_trend (model e))) < 0.0001)"
    "length (history e) = length (replicate 11 (0.1::real))" by simp_all
  then have "convergence (model e)" "length (history e) = 11"
    using v unfolding t by simp_all
  then show ?thesis
    unfolding e_def[symmetric] using r by blast
qed

text \<open>
  Claim C6. Two engines built by the constructor from the same initial state and holding
  parameter objects with the same coefficients give, after the same sequence of
  \<open>step\<close> calls, the same outcome: the same exception, or the same state, elapsed
  time, step counter, history and trend model. \<open>step\<close> takes no random source, and
  the inertia weights are constants: the time constants given to the constructor may even
  differ.
\<close>

theorem step_deterministic:
  assumes "AutopoieticEngine_init ha c t pa = (h1, e1)"
    and "AutopoieticEngine_init hb c t' pb = (h2, e2)"
    and "cells h1 (params e1) = cells h2 (params e2)"
  shows "map_sum id (observe h1) (run h1 e1 dts) = map_sum id (observe h2) (run h2 e2 dts)"
proof -
  from assms(1,2) have "state e1 = state e2" "history e1 = history e2"
    "time_elapsed e1 = time_elapsed e2" "tick_count e1 = tick_count e2" "model e1 = model e2"
    by (auto simp: AutopoieticEngine_init_def split: prod.splits option.splits)
  with assms(3) have "observe h1 e1 = observe h2 e2" by (simp add: observe_eq)
  then show ?thesis by (rule run_observe)
qed

text \<open>
  Two engines at the origin, one on a fresh default parameter object and one on the object
  at address 5 of the empty store, stepped by 0.1 and 0.2.
\<close>

theorem step_deterministic_witness:
  "AutopoieticEngine_init empty_store (LJPWCoordinates_new 0 0 0 0) None None =
     (origin_store, origin_engine) \<and>
   AutopoieticEngine_init empty_store (LJPWCoordinates_new 0 0 0 0) None (Some 5) =
     (empty_store, snd (AutopoieticEngine_init empty_store (LJPWCoordinates_new 0 0 0 0) None (Some 5))) \<and>
   cells origin_store (params origin_engine) =
     cells empty_store (params (snd (AutopoieticEngine_init empty_store (LJPWCoordinates_new 0 0 0 0) None (Some 5)))) \<and>
   params origin_engine \<noteq>
     params (snd (AutopoieticEngine_init empty_store (LJPWCoordinates_new 0 0 0 0) None (Some 5))) \<and>
   map_sum id (observe origin_store) (run origin_store origin_engine [0.1, 0.2]) =
   map_sum id (observe empty_store)
     (run empty_store (snd (AutopoieticEngine_init empty_store (LJPWCoordinates_new 0 0 0 0) None (Some 5)))
        [0.1, 0.2])"
proof -
  define e2 where
    "e2 = snd (AutopoieticEngine_init empty_store (LJPWCoordinates_new 0 0 0 0) None (Some 5))"
  have b: "AutopoieticEngine_init empty_store (LJPWCoordinates_new 0 0 0 0) None (Some 5) =
     (empty_store, e2)"
    by (simp add: e2_def AutopoieticEngine_init_def)
  have p: "params e2 = 5" by (simp add: e2_def AutopoieticEngine_init_def)
  have c: "cells origin_store (params origin_engine) = cells empty_store (params e2)"
    by (simp add: origin_store_cells empty_store_def)
  have d: "params origin_engine \<noteq> params e2" by (simp add: p origin_engine_fields)
  from step_deterministic[OF origin_init b c, of "[0.1, 0.2]"] show ?thesis
    unfolding e2_def[symmetric] using origin_init b c d by blast
qed

subsection \<open>The coupling multipliers\<close>

text \<open>
  Claim C8 says that the Harmony-dependent multipliers appear only in the equation of the
  first dimension. In the code the Power equation carries \<open>kappa_LP\<close> and the Wisdom
  equation carries \<open>kappa_LW\<close>: with the default coefficients at the anchor, raising
  \<open>kappa_LP\<close> from 1 to 2 moves the Power derivative from 0.04 to 0.16, and raising
  \<open>kappa_LW\<close> from 1 to 2 moves the Wisdom derivative from 0.06 to 0.16.
\<close>

theorem kappa_outside_love_counterexample:
  "differential_equations DynamicParameters_default (LJPWCoordinates_new 1 1 1 1) 1 1 1 ! 2 = 0.04 \<and>
   differential_equations DynamicParameters_default (LJPWCoordinates_new 1 1 1 1) 1 2 1 ! 2 = 0.16 \<and>
   differential_equations DynamicParameters_default (LJPWCoordinates_new 1 1 1 1) 1 1 1 ! 3 = 0.06 \<and>
   differential_equations DynamicParameters_default (LJPWCoordinates_new 1 1 1 1) 1 1 2 ! 3 = 0.16"
  by (simp add: differential_equations_def Let_def DynamicParameters_default_def anchor_coordinates)

text \<open>
  Claim C8, amended. The three multipliers are \<open>1 + 0.4 H\<close>, \<open>1 + 0.3 H\<close> and
  \<open>1 + 0.5 H\<close>, and they scale the terms that Love takes part in: \<open>kappa_LJ\<close> and
  \<open>kappa_LW\<close> scale the Justice and Wisdom terms of the Love equation, \<open>kappa_LP\<close>
  the Love term of the Power equation and \<open>kappa_LW\<close> the Love term of the Wisdom
  equation. Only the Justice equation has no Harmony-dependent multiplier: its value is
  the same for all values of the three. The amplification is asymmetric.
\<close>

theorem kappa_asymmetry:
  "calculate_forces h e st =
     (if num (K_JL (cells h (params e))) + L st = 0 then Inl ZeroDivisionError
      else Inr (differential_equations (cells h (params e)) st
                  (1 + 0.4 * harmony_static st) (1 + 0.3 * harmony_static st)
                  (1 + 0.5 * harmony_static st))) \<and>
   differential_equations p st kLJ kLP kLW ! 0 =
     num (alpha_LJ p) * J st * kLJ + num (alpha_LW p) * W st * kLW - num (beta_L p) * L st \<and>
   differential_equations p st kLJ kLP kLW ! 2 =
     num (alpha_PL p) * L st * kLP + num (alpha_PJ p) * J st - num (beta_P p) * P st \<and>
   differential_equations p st kLJ kLP kLW ! 3 =
     num (alpha_WL p) * L st * kLW + num (alpha_WJ p) * J st + num (alpha_WP p) * P st - num (beta_W p) * W st \<and>
   differential_equations p st kLJ kLP kLW ! 1 =
     num (alpha_JL p) * (L st / (num (K_JL p) + L st)) + num (alpha_JW p) * W st
       - num (gamma p) * P st * (1 - W st / W0) - num (beta_J p) * J st \<and>
   differential_equations p st kLJ kLP kLW ! 1 = differential_equations p st kLJ' kLP' kLW' ! 1"
  by (simp add: calculate_forces_def differential_equations_def Let_def)

text \<open>
  Claim C1 says that an iteration of \<open>self_improve\<close> whose candidate is rejected leaves
  the parameters of the live engine unchanged, the scratch engine holding a copy. The
  code passes \<open>self.params\<close> itself to the scratch engine and \<open>random_mutation\<close>
  updates that object in place. For the engine at the origin with the default
  coefficients, one iteration at learning rate 0.1 with unit samples 1/4 prints
  \<open>REJECTED\<close> (the score 0 does not exceed the best score 0), the live engine still
  holds the same address, and the object at that address has every coefficient
  multiplied by 0.95: \<open>alpha_LJ\<close> goes from 0.12 to 0.114.
\<close>

theorem self_improve_rejected_mutates_live_params:
  "\<not> isl (self_improve origin_store origin_engine 1 0.1 quarter_samples) \<and>
   snd (snd (snd (projr (self_improve origin_store origin_engine 1 0.1 quarter_samples)))) =
     [REJECTED 0 0] \<and>
   params (fst (snd (projr (self_improve origin_store origin_engine 1 0.1 quarter_samples)))) =
     params origin_engine \<and>
   cells origin_store (params origin_engine) = DynamicParameters_default \<and>
   cells (fst (projr (self_improve origin_store origin_engine 1 0.1 quarter_samples)))
     (params origin_engine) =
     \<lparr>alpha_LJ = PyFloat 0.114, alpha_LW = PyFloat 0.114, alpha_JL = PyFloat 0.133, alpha_JW = PyFloat 0.133,
      alpha_PL = PyFloat 0.114, alpha_PJ = PyFloat 0.114, alpha_WL = PyFloat 0.095, alpha_WJ = PyFloat 0.095, alpha_WP = PyFloat 0.095,
      beta_L = PyFloat 0.19, beta_J = PyFloat 0.19, beta_P = PyFloat 0.19, beta_W = PyFloat 0.228,
      gamma = PyFloat 0.076, K_JL = PyFloat 0.5605\<rparr> \<and>
   alpha_LJ DynamicParameters_default = PyFloat 0.12"
proof -
  have a: "alpha_LJ DynamicParameters_default = PyFloat 0.12"
    by (simp add: DynamicParameters_default_def)
  show ?thesis
    unfolding self_improve_at_origin using a
    by (simp add: origin_store_cells mutated_default)
qed

end
